theory Spec2Isabelle
  imports Complex_Main "HOL-Library.AList"
begin

section \<open>Python values\<close>

text \<open>
  The service is dynamically typed Python. Floats are idealised: a finite float is a real
  number (rounding is not modelled), and the three special values that the log-return
  transform can produce are kept apart, because \<^verbatim>\<open>dropna\<close> and the truth value of a
  float depend on them.
\<close>

datatype fval = Num real | PosInf | NegInf | NaN

text \<open>
  A dictionary is an association list in insertion order, as a Python \<^verbatim>\<open>dict\<close> is;
  lookup is \<^const>\<open>map_of\<close> and item assignment is \<^const>\<open>AList.update\<close>, which
  overwrites in place or appends at the end.
\<close>

datatype pyval =
    PNone
  | PBool bool
  | PFloat fval
  | PStr string
  | PDict "(string \<times> pyval) list"

type_synonym dict = "(string \<times> pyval) list"

text \<open>Exceptions carry the text that \<^verbatim>\<open>str(e)\<close> gives.\<close>

datatype exc = AttributeError string | IndexError string | TypeError string | LibraryError string

fun str_exc :: "exc \<Rightarrow> string" where
  "str_exc (AttributeError m) = m"
| "str_exc (IndexError m) = m"
| "str_exc (TypeError m) = m"
| "str_exc (LibraryError m) = m"

text \<open>Truth value testing, as \<^verbatim>\<open>or\<close>, \<^verbatim>\<open>not\<close> and \<^verbatim>\<open>if\<close> use it.\<close>

fun truthy :: "pyval \<Rightarrow> bool" where
  "truthy PNone = False"
| "truthy (PBool b) = b"
| "truthy (PFloat x) = (x \<noteq> Num 0)"
| "truthy (PStr s) = (s \<noteq> [])"
| "truthy (PDict d) = (d \<noteq> [])"

fun type_name :: "pyval \<Rightarrow> string" where
  "type_name PNone = ''NoneType''"
| "type_name (PBool b) = ''bool''"
| "type_name (PFloat x) = ''float''"
| "type_name (PStr s) = ''str''"
| "type_name (PDict d) = ''dict''"

text \<open>\<^verbatim>\<open>d.get(k)\<close> on a dictionary: \<^verbatim>\<open>None\<close> when the key is absent.\<close>

definition dict_get :: "dict \<Rightarrow> string \<Rightarrow> pyval" where
  "dict_get d k = (case map_of d k of Some v \<Rightarrow> v | None \<Rightarrow> PNone)"

text \<open>
  \<^verbatim>\<open>obj.get(k, default)\<close> on any value: only a dictionary has the method, every other
  value raises \<^verbatim>\<open>AttributeError\<close>.
\<close>

fun py_get :: "pyval \<Rightarrow> string \<Rightarrow> pyval \<Rightarrow> exc + pyval" where
  "py_get (PDict d) k dflt = Inr (case map_of d k of Some v \<Rightarrow> v | None \<Rightarrow> dflt)"
| "py_get v k dflt =
     Inl (AttributeError
            ([CHR 0x27] @ type_name v @ [CHR 0x27] @ '' object has no attribute ''
             @ [CHR 0x27] @ ''get'' @ [CHR 0x27]))"

text \<open>
  \<^verbatim>\<open>a or b\<close>: the first operand when it is truthy, else the second; an exception raised
  while evaluating the first operand propagates, and the second is not looked at when the
  first is truthy.
\<close>

definition py_or :: "exc + pyval \<Rightarrow> exc + pyval \<Rightarrow> exc + pyval" where
  "py_or a b = (case a of Inl e \<Rightarrow> Inl e | Inr v \<Rightarrow> if truthy v then Inr v else b)"

definition is_dict :: "pyval \<Rightarrow> bool" where
  "is_dict v = (case v of PDict d \<Rightarrow> True | _ \<Rightarrow> False)"

definition is_float :: "pyval \<Rightarrow> bool" where
  "is_float v = (case v of PFloat x \<Rightarrow> True | _ \<Rightarrow> False)"

section \<open>External collaborators and the trace of what the service does\<close>

datatype level = INFO | WARNING | ERROR

text \<open>One constructor per log call of the source, with the values its format string shows.\<close>

datatype message =
    NoPriceData string
  | NotEnoughPricePoints string nat
  | InsufficientPriceData string
  | TrainingFailed string pyval
  | BatchComplete nat
  | ErrorFetching string exc
  | StoredMetrics string
  | ErrorSaving string exc

text \<open>
  The row handed to \<^verbatim>\<open>client.insert\<close>: symbol, ar\_param, ma\_param, volatility. The
  timestamp column (\<^verbatim>\<open>datetime.now()\<close>) is left out.
\<close>

type_synonym row = "string \<times> pyval \<times> pyval \<times> pyval"

datatype event =
    PriceQuery string
  | ArimaFit "fval list"
  | GarchFit "fval list"
  | SinkInsert row
  | Log level message

text \<open>
  What a row of the price query holds in its one column. The annotation of
  \<^verbatim>\<open>fetch_price_history\<close> says \<^verbatim>\<open>List[float]\<close>, but the list is whatever the
  database driver returns for the column: a number (a finite float is a real number), NULL
  as \<^verbatim>\<open>None\<close>, a \<^verbatim>\<open>Decimal\<close>, or text.
\<close>

datatype price = Number real | Null | Decimal real | Text string

text \<open>
  The database, pandas and the two estimators are outside the repository. Each is a function from
  the call's arguments to what the call does: return a value or raise. A call's outcome
  depends on its arguments only: a batch sees one state of the price table, and an
  estimator gives the same answer on the same series.
  \<^item> \<open>price_query\<close>: \<^verbatim>\<open>get_db_client()\<close> followed by the price query of
    \<^verbatim>\<open>fetch_price_history\<close>; the rows have the one selected column.
  \<^item> \<open>other_series\<close>: lines 17 and 18 of \<^verbatim>\<open>train_and_extract_params\<close> on a price
    list that holds something other than numbers; pandas and numpy decide whether the
    expression raises (as it does on \<^verbatim>\<open>Decimal\<close> values) or gives a series.
  \<^item> \<open>arima_fit\<close>: \<^verbatim>\<open>ARIMA(returns, order=(1, 0, 1)).fit()\<close>, giving \<^verbatim>\<open>params\<close>.
  \<^item> \<open>garch_fit\<close>: \<^verbatim>\<open>arch_model(...).fit(disp="off")\<close>, giving \<^verbatim>\<open>params\<close> and
    \<^verbatim>\<open>conditional_volatility\<close>.
  \<^item> \<open>sink_client\<close>: \<^verbatim>\<open>get_db_client()\<close> in \<^verbatim>\<open>save_model_results\<close>.
  \<^item> \<open>sink_insert\<close>: \<^verbatim>\<open>client.insert\<close> into \<^verbatim>\<open>model_metrics\<close>.
\<close>

record env =
  price_query :: "string \<Rightarrow> exc + price list"
  other_series :: "price list \<Rightarrow> exc + fval list"
  arima_fit :: "fval list \<Rightarrow> exc + (string \<rightharpoonup> fval)"
  garch_fit :: "fval list \<Rightarrow> exc + ((string \<rightharpoonup> fval) \<times> fval list)"
  sink_client :: "string \<Rightarrow> exc option"
  sink_insert :: "row \<Rightarrow> exc option"

section \<open>database\_retrieval.py\<close>

definition fetch_price_history :: "env \<Rightarrow> string \<Rightarrow> price list \<times> event list" where
  "fetch_price_history env symbol =
     (case price_query env symbol of
        Inr prices \<Rightarrow> (prices, [PriceQuery symbol])
      | Inl e \<Rightarrow> ([], [PriceQuery symbol, Log ERROR (ErrorFetching symbol e)]))"

text \<open>
  Lines 42 to 62 of \<^verbatim>\<open>save_model_results\<close>: the two sub-mappings and the three
  \<^verbatim>\<open>or\<close> cascades. Any \<^verbatim>\<open>.get\<close> on a value that is not a dictionary raises.
\<close>

definition resolve_metrics :: "pyval \<Rightarrow> exc + (pyval \<times> pyval \<times> pyval)" where
  "resolve_metrics metrics =
     (case (if is_dict metrics then py_get metrics ''arma'' (PDict []) else Inr (PDict [])) of
        Inl e \<Rightarrow> Inl e
      | Inr arma \<Rightarrow>
     (case (if is_dict metrics then py_get metrics ''garch'' (PDict []) else Inr (PDict [])) of
        Inl e \<Rightarrow> Inl e
      | Inr garch \<Rightarrow>
     (case py_or (py_get metrics ''ar_coeff'' PNone)
            (py_or (py_get arma ''ar_coef'' PNone)
              (py_or (py_get arma ''ar_coeff'' PNone) (Inr (PFloat (Num 0))))) of
        Inl e \<Rightarrow> Inl e
      | Inr ar_coeff \<Rightarrow>
     (case py_or (py_get metrics ''ma_coeff'' PNone)
            (py_or (py_get arma ''ma_coef'' PNone)
              (py_or (py_get arma ''ma_coeff'' PNone) (Inr (PFloat (Num 0))))) of
        Inl e \<Rightarrow> Inl e
      | Inr ma_coeff \<Rightarrow>
     (case py_or (py_get metrics ''garch_volatility'' PNone)
            (py_or (py_get garch ''last_volatility'' PNone)
              (py_or (py_get garch ''garch_volatility'' PNone) (Inr (PFloat (Num 0))))) of
        Inl e \<Rightarrow> Inl e
      | Inr garch_volatility \<Rightarrow> Inr (ar_coeff, ma_coeff, garch_volatility))))))"

definition save_model_results :: "env \<Rightarrow> string \<Rightarrow> pyval \<Rightarrow> event list" where
  "save_model_results env symbol metrics =
     (case sink_client env symbol of
        Some e \<Rightarrow> [Log ERROR (ErrorSaving symbol e)]
      | None \<Rightarrow>
     (case resolve_metrics metrics of
        Inl e \<Rightarrow> [Log ERROR (ErrorSaving symbol e)]
      | Inr (ar_coeff, ma_coeff, garch_volatility) \<Rightarrow>
     (case sink_insert env (symbol, ar_coeff, ma_coeff, garch_volatility) of
        Some e \<Rightarrow>
          [SinkInsert (symbol, ar_coeff, ma_coeff, garch_volatility),
           Log ERROR (ErrorSaving symbol e)]
      | None \<Rightarrow>
          [SinkInsert (symbol, ar_coeff, ma_coeff, garch_volatility),
           Log INFO (StoredMetrics symbol)])))"

section \<open>financial\_models.py\<close>

text \<open>
  \<^verbatim>\<open>np.log(cur / prev)\<close> on floats: division by zero gives an infinity or NaN, the
  logarithm of a negative number is NaN, the logarithm of zero is minus infinity.
\<close>

definition np_log_ratio :: "real \<Rightarrow> real \<Rightarrow> fval" where
  "np_log_ratio cur prev =
     (if prev = 0 then (if 0 < cur then PosInf else NaN)
      else if cur / prev < 0 then NaN
      else if cur = 0 then NegInf
      else Num (ln (cur / prev)))"

fun times100 :: "fval \<Rightarrow> fval" where
  "times100 (Num x) = Num (100 * x)"
| "times100 PosInf = PosInf"
| "times100 NegInf = NegInf"
| "times100 NaN = NaN"

text \<open>
  \<^verbatim>\<open>100 * np.log(price_series / price_series.shift(1)).dropna()\<close>: the first price has
  no predecessor (its quotient is NaN), and \<^verbatim>\<open>dropna\<close> removes every NaN.
\<close>

definition log_returns :: "real list \<Rightarrow> fval list" where
  "log_returns prices =
     map times100
       (filter (\<lambda>x. x \<noteq> NaN)
          (map (\<lambda>(prev, cur). np_log_ratio cur prev) (zip prices (tl prices))))"

text \<open>
  Lines 17 and 18, which stand before the \<^verbatim>\<open>try\<close> block. On a list of numbers the
  series has a numeric dtype and the expression is \<open>log_returns\<close>, which does not raise.
  On any other list the outcome is the library's: a series, or an exception.
\<close>

fun numbers :: "price list \<Rightarrow> real list option" where
  "numbers [] = Some []"
| "numbers (Number x # ps) = map_option ((#) x) (numbers ps)"
| "numbers (p # ps) = None"

definition returns_of :: "env \<Rightarrow> price list \<Rightarrow> exc + fval list" where
  "returns_of env prices =
     (case numbers prices of
        Some xs \<Rightarrow> Inr (log_returns xs)
      | None \<Rightarrow> other_series env prices)"

definition initial_results :: dict where
  "initial_results =
     [(''success'', PBool True),
      (''ar_coeff'', PFloat (Num 0)),
      (''ma_coeff'', PFloat (Num 0)),
      (''const'', PFloat (Num 0)),
      (''omega'', PFloat (Num 0)),
      (''alpha'', PFloat (Num 0)),
      (''beta'', PFloat (Num 0)),
      (''garch_volatility'', PFloat (Num 0))]"

definition failure :: "string \<Rightarrow> dict" where
  "failure msg = [(''error'', PStr msg), (''success'', PBool False)]"

text \<open>\<^verbatim>\<open>params.get(k, default)\<close> on the coefficient series of a fitted model.\<close>

definition params_get :: "(string \<rightharpoonup> fval) \<Rightarrow> string \<Rightarrow> fval \<Rightarrow> fval" where
  "params_get params k dflt = (case params k of Some v \<Rightarrow> v | None \<Rightarrow> dflt)"

text \<open>Lines 46 to 48: the flattened ARMA output.\<close>

definition populate_arma :: "dict \<Rightarrow> (string \<rightharpoonup> fval) \<Rightarrow> dict" where
  "populate_arma results params =
     AList.update ''const'' (PFloat (params_get params ''const'' (Num 0)))
       (AList.update ''ma_coeff'' (PFloat (params_get params ''ma.L1'' (Num 0)))
          (AList.update ''ar_coeff'' (PFloat (params_get params ''ar.L1'' (Num 0))) results))"

text \<open>\<^verbatim>\<open>series.iloc[-1]\<close>: the last entry, \<^verbatim>\<open>IndexError\<close> on an empty series.\<close>

definition iloc_last :: "fval list \<Rightarrow> exc + fval" where
  "iloc_last xs =
     (if xs = [] then Inl (IndexError ''single positional indexer is out-of-bounds'')
      else Inr (last xs))"

text \<open>Lines 57 to 67: the flattened GARCH output.\<close>

definition populate_garch :: "dict \<Rightarrow> (string \<rightharpoonup> fval) \<Rightarrow> fval list \<Rightarrow> exc + dict" where
  "populate_garch results params conditional_volatility =
     (let r1 = AList.update ''omega'' (PFloat (params_get params ''omega'' (Num 0))) results;
          r2 = AList.update ''alpha''
                 (PFloat (params_get params ''alpha[1]'' (params_get params ''alpha'' (Num 0)))) r1;
          r3 = AList.update ''beta''
                 (PFloat (params_get params ''beta[1]'' (params_get params ''beta'' (Num 0)))) r2
      in case iloc_last conditional_volatility of
           Inl e \<Rightarrow> Inl e
         | Inr v \<Rightarrow> Inr (AList.update ''garch_volatility'' (PFloat v) r3))"

text \<open>The body of the \<^verbatim>\<open>try\<close> block, lines 33 to 69.\<close>

definition fit_models :: "env \<Rightarrow> fval list \<Rightarrow> (exc + dict) \<times> event list" where
  "fit_models env returns =
     (if length returns < 10
      then (Inr (failure ''Not enough return observations to train models''), [])
      else
        (case arima_fit env returns of
           Inl e \<Rightarrow> (Inl e, [ArimaFit returns])
         | Inr arma_params \<Rightarrow>
        (case garch_fit env returns of
           Inl e \<Rightarrow> (Inl e, [ArimaFit returns, GarchFit returns])
         | Inr (garch_params, conditional_volatility) \<Rightarrow>
             (populate_garch (populate_arma initial_results arma_params)
                garch_params conditional_volatility,
              [ArimaFit returns, GarchFit returns]))))"

text \<open>
  The \<^verbatim>\<open>try\<close> block with its handler, lines 33 to 72: an exception inside the block
  is caught and becomes the failure dictionary.
\<close>

definition try_fit :: "env \<Rightarrow> fval list \<Rightarrow> dict \<times> event list" where
  "try_fit env returns =
     (case fit_models env returns of
        (Inr results, evs) \<Rightarrow> (results, evs)
      | (Inl e, evs) \<Rightarrow> (failure (str_exc e), evs))"

text \<open>
  The whole function. An exception of lines 17 and 18 is raised before the \<^verbatim>\<open>try\<close>
  block is entered, so it leaves the function: the result \<open>Inl e\<close>.
\<close>

definition train_and_extract_params :: "env \<Rightarrow> price list \<Rightarrow> (exc + dict) \<times> event list" where
  "train_and_extract_params env prices =
     (case returns_of env prices of
        Inl e \<Rightarrow> (Inl e, [])
      | Inr returns \<Rightarrow>
          (case try_fit env returns of (model_result, evs) \<Rightarrow> (Inr model_result, evs)))"

section \<open>training\_service.py\<close>

text \<open>
  Neither loop wraps its call of \<^verbatim>\<open>train_and_extract_params\<close> in a \<^verbatim>\<open>try\<close>: an
  exception that leaves that function leaves the loop and the batch function too. So the
  body of a loop, the loop and the batch function each have a result \<open>Inl e\<close> for "raised
  \<open>e\<close>", beside the trace up to that point.

  The body of the loop of \<^verbatim>\<open>process_batch_logic\<close> for one symbol: the entry appended to
  \<^verbatim>\<open>results_summary\<close>, if any, and what happened.
\<close>

definition batch_body :: "env \<Rightarrow> string \<Rightarrow> (exc + dict option) \<times> event list" where
  "batch_body env symbol =
     (let (prices, ev1) = fetch_price_history env symbol in
      if prices = [] then (Inr None, ev1 @ [Log WARNING (NoPriceData symbol)])
      else if length prices < 10
      then (Inr None, ev1 @ [Log WARNING (NotEnoughPricePoints symbol (length prices))])
      else
        (case train_and_extract_params env prices of
           (Inl e, ev2) \<Rightarrow> (Inl e, ev1 @ ev2)
         | (Inr model_result, ev2) \<Rightarrow>
             if truthy (dict_get model_result ''success'')
             then (Inr (Some [(symbol, PStr ''Success'')]),
                   ev1 @ ev2 @ save_model_results env symbol (PDict model_result))
             else (Inr None,
                   ev1 @ ev2
                   @ [Log ERROR (TrainingFailed symbol (dict_get model_result ''error''))])))"

fun batch_loop :: "env \<Rightarrow> string list \<Rightarrow> dict list \<Rightarrow> (exc + dict list) \<times> event list" where
  "batch_loop env [] results_summary = (Inr results_summary, [])"
| "batch_loop env (symbol # symbols) results_summary =
     (case batch_body env symbol of
        (Inl e, ev) \<Rightarrow> (Inl e, ev)
      | (Inr r, ev) \<Rightarrow>
          (case batch_loop env symbols
                  (case r of None \<Rightarrow> results_summary | Some s \<Rightarrow> results_summary @ [s]) of
             (summary, evs) \<Rightarrow> (summary, ev @ evs)))"

text \<open>
  The source function returns nothing; \<^verbatim>\<open>results_summary\<close> is a local whose length is
  logged. The model returns it beside the trace.
\<close>

definition process_batch_logic :: "env \<Rightarrow> string list \<Rightarrow> (exc + dict list) \<times> event list" where
  "process_batch_logic env symbols =
     (case batch_loop env symbols [] of
        (Inl e, evs) \<Rightarrow> (Inl e, evs)
      | (Inr results_summary, evs) \<Rightarrow>
          (Inr results_summary, evs @ [Log INFO (BatchComplete (length results_summary))]))"

text \<open>The body of the loop of \<^verbatim>\<open>process_batch_logic_sync\<close> for one symbol.\<close>

definition sync_body :: "env \<Rightarrow> string \<Rightarrow> (exc + dict option) \<times> event list" where
  "sync_body env symbol =
     (let (prices, ev1) = fetch_price_history env symbol in
      if prices = [] \<or> length prices < 10
      then (Inr None, ev1 @ [Log WARNING (InsufficientPriceData symbol)])
      else
        (case train_and_extract_params env prices of
           (Inl e, ev2) \<Rightarrow> (Inl e, ev1 @ ev2)
         | (Inr model_result, ev2) \<Rightarrow>
             if truthy (dict_get model_result ''success'')
             then (Inr (Some (AList.update ''symbol'' (PStr symbol) model_result)), ev1 @ ev2)
             else (Inr None,
                   ev1 @ ev2
                   @ [Log ERROR (TrainingFailed symbol (dict_get model_result ''error''))])))"

fun sync_loop :: "env \<Rightarrow> string list \<Rightarrow> dict list \<Rightarrow> (exc + dict list) \<times> event list" where
  "sync_loop env [] all_metrics = (Inr all_metrics, [])"
| "sync_loop env (symbol # symbols) all_metrics =
     (case sync_body env symbol of
        (Inl e, ev) \<Rightarrow> (Inl e, ev)
      | (Inr r, ev) \<Rightarrow>
          (case sync_loop env symbols
                  (case r of None \<Rightarrow> all_metrics | Some m \<Rightarrow> all_metrics @ [m]) of
             (metrics, evs) \<Rightarrow> (metrics, ev @ evs)))"

definition process_batch_logic_sync ::
  "env \<Rightarrow> string list \<Rightarrow> (exc + dict list) \<times> event list" where
  "process_batch_logic_sync env symbols =
     (case sync_loop env symbols [] of
        (Inl e, evs) \<Rightarrow> (Inl e, evs)
      | (Inr all_metrics, evs) \<Rightarrow>
          (Inr all_metrics, evs @ [Log INFO (BatchComplete (length all_metrics))]))"

text \<open>
  What leaves an endpoint function instead of a response: the \<^verbatim>\<open>HTTPException\<close> it
  raises itself, or any other exception that reaches it.
\<close>

datatype raised = HTTPException nat string | Unhandled exc

record sync_response =
  status :: string
  results :: "dict list"

definition trigger_training_sync ::
  "env \<Rightarrow> string list \<Rightarrow> (raised + sync_response) \<times> event list" where
  "trigger_training_sync env symbols =
     (if symbols = [] then (Inl (HTTPException 400 ''No symbols provided''), [])
      else
        (case process_batch_logic_sync env symbols of
           (Inl e, evs) \<Rightarrow> (Inl (Unhandled e), evs)
         | (Inr results_summary, evs) \<Rightarrow>
             (Inr \<lparr>status = ''Processing complete'', results = results_summary\<rparr>, evs)))"

text \<open>
  The acknowledgement of the deferred endpoint; \<open>queued\<close> is the number shown in its
  message.
\<close>

record ack_response =
  ack_status :: string
  queued :: nat
  mode :: string

text \<open>
  \<^verbatim>\<open>trigger_training\<close> does no processing itself: it returns the acknowledgement and the
  tasks it added to \<^verbatim>\<open>background_tasks\<close>, each the symbol list of one later call of
  \<^verbatim>\<open>process_batch_logic\<close>.
\<close>

definition trigger_training :: "string list \<Rightarrow> (raised + ack_response) \<times> string list list" where
  "trigger_training symbols =
     (if symbols = [] then (Inl (HTTPException 400 ''No symbols provided''), [])
      else
        (Inr \<lparr>ack_status = ''Batch processing started'', queued = length symbols,
              mode = ''Pull Architecture''\<rparr>,
         [symbols]))"

text \<open>The hosting framework runs the queued tasks after the response, one after the other.\<close>

definition run_background_tasks :: "env \<Rightarrow> string list list \<Rightarrow> event list" where
  "run_background_tasks env tasks = concat (map (\<lambda>symbols. snd (process_batch_logic env symbols)) tasks)"

section \<open>Notions used in the statements\<close>

text \<open>
  The dictionary that \<^verbatim>\<open>train_and_extract_params\<close> returns when both fits went
  through: \<^verbatim>\<open>results\<close> after lines 46 to 67, given the two coefficient series and the
  last conditional volatility.
\<close>

definition flattened_results :: "(string \<rightharpoonup> fval) \<Rightarrow> (string \<rightharpoonup> fval) \<Rightarrow> fval \<Rightarrow> dict" where
  "flattened_results arma_params garch_params v =
     [(''success'', PBool True),
      (''ar_coeff'', PFloat (params_get arma_params ''ar.L1'' (Num 0))),
      (''ma_coeff'', PFloat (params_get arma_params ''ma.L1'' (Num 0))),
      (''const'', PFloat (params_get arma_params ''const'' (Num 0))),
      (''omega'', PFloat (params_get garch_params ''omega'' (Num 0))),
      (''alpha'',
         PFloat (params_get garch_params ''alpha[1]'' (params_get garch_params ''alpha'' (Num 0)))),
      (''beta'',
         PFloat (params_get garch_params ''beta[1]'' (params_get garch_params ''beta'' (Num 0)))),
      (''garch_volatility'', PFloat v)]"

text \<open>
  A symbol's fit succeeded: the price query returned at least ten prices, the return
  computation gave a series of at least ten observations, neither estimator raised, and
  the volatility series has a last entry. Stated on the collaborators alone.
\<close>

definition fit_succeeded :: "env \<Rightarrow> string \<Rightarrow> bool" where
  "fit_succeeded env symbol =
     (case price_query env symbol of
        Inl e \<Rightarrow> False
      | Inr prices \<Rightarrow>
          10 \<le> length prices \<and>
          (case returns_of env prices of
             Inl e \<Rightarrow> False
           | Inr returns \<Rightarrow>
               10 \<le> length returns \<and>
               (case arima_fit env returns of
                  Inl e \<Rightarrow> False
                | Inr ap \<Rightarrow>
                    (case garch_fit env returns of
                       Inl e \<Rightarrow> False
                     | Inr (gp, vols) \<Rightarrow> vols \<noteq> []))))"

text \<open>
  The exception that the processing of a symbol lets through, if any: the one of the return
  computation on a price list that passed the price-count gate. The first one in a symbol
  list.
\<close>

definition uncaught :: "env \<Rightarrow> string \<Rightarrow> exc option" where
  "uncaught env symbol =
     (case price_query env symbol of
        Inl e \<Rightarrow> None
      | Inr prices \<Rightarrow>
          if 10 \<le> length prices
          then (case returns_of env prices of Inl e \<Rightarrow> Some e | Inr returns \<Rightarrow> None)
          else None)"

fun first_uncaught :: "env \<Rightarrow> string list \<Rightarrow> exc option" where
  "first_uncaught env [] = None"
| "first_uncaught env (symbol # symbols) =
     (case uncaught env symbol of Some e \<Rightarrow> Some e | None \<Rightarrow> first_uncaught env symbols)"

text \<open>Every price that the query returns for a symbol of the list is a number.\<close>

definition numeric_prices :: "env \<Rightarrow> string list \<Rightarrow> bool" where
  "numeric_prices env symbols =
     list_all (\<lambda>s. case price_query env s of
                      Inl e \<Rightarrow> True
                    | Inr prices \<Rightarrow> numbers prices \<noteq> None) symbols"

text \<open>
  What the Model Fitter returns for the prices fetched for a symbol; the empty dictionary
  stands in when it raises instead.
\<close>

definition model_result_of :: "env \<Rightarrow> string \<Rightarrow> dict" where
  "model_result_of env symbol =
     (case fst (train_and_extract_params env (fst (fetch_price_history env symbol))) of
        Inr model_result \<Rightarrow> model_result
      | Inl e \<Rightarrow> [])"

text \<open>The list that a batch function returned; none when it raised.\<close>

definition returned :: "exc + dict list \<Rightarrow> dict list" where
  "returned r = (case r of Inr ms \<Rightarrow> ms | Inl e \<Rightarrow> [])"

definition seven_fields :: "string list" where
  "seven_fields =
     [''ar_coeff'', ''ma_coeff'', ''const'', ''omega'', ''alpha'', ''beta'', ''garch_volatility'']"

text \<open>All seven fields are present and hold a float.\<close>

definition fully_populated :: "dict \<Rightarrow> bool" where
  "fully_populated r = list_all (\<lambda>k. is_float (dict_get r k)) seven_fields"

text \<open>A call of one of the two estimators; an insert of a row for a given symbol.\<close>

definition is_fit_call :: "event \<Rightarrow> bool" where
  "is_fit_call e = (case e of ArimaFit r \<Rightarrow> True | GarchFit r \<Rightarrow> True | _ \<Rightarrow> False)"

definition is_insert_for :: "string \<Rightarrow> event \<Rightarrow> bool" where
  "is_insert_for symbol e = (case e of SinkInsert (s, a, m, v) \<Rightarrow> s = symbol | _ \<Rightarrow> False)"

text \<open>
  A concrete world to run the service in: symbols with price histories of different
  lengths, one whose prices are \<^verbatim>\<open>Decimal\<close> values, one whose query fails, a return
  computation that raises on a list that is not all numbers, an ARMA estimator that fails
  on a return series of eleven observations, a GARCH estimator that fails on one of
  thirteen, and a store whose inserts time out.
\<close>

definition example_prices :: "string \<Rightarrow> exc + price list" where
  "example_prices symbol =
     (if symbol = ''AAPL''
      then Inr (map Number [100, 101, 102, 103, 104, 105, 106, 107, 108, 109, 110])
      else if symbol = ''MSFT''
      then Inr (map Number [50, 51, 52, 53, 54, 55, 56, 57, 58, 59, 60, 61, 62])
      else if symbol = ''XYZ''
      then Inr (map Number [20, 21, 22, 23, 24, 25, 26, 27, 28, 29, 30, 31])
      else if symbol = ''VOL''
      then Inr (map Number [30, 31, 32, 33, 34, 35, 36, 37, 38, 39, 40, 41, 42, 43])
      else if symbol = ''TEN'' then Inr (map Number [1, 2, 3, 4, 5, 6, 7, 8, 9, 10])
      else if symbol = ''ZZZZ'' then Inr (map Number [1, 2, 3, 4, 5])
      else if symbol = ''DEC''
      then Inr (map Decimal [70, 71, 72, 73, 74, 75, 76, 77, 78, 79, 80])
      else if symbol = ''DOWN'' then Inl (LibraryError ''connection refused'')
      else Inr [])"

definition example_env :: env where
  "example_env =
     \<lparr>price_query = example_prices,
      other_series = (\<lambda>prices. Inl (TypeError ''loop of ufunc does not support argument 0'')),
      arima_fit = (\<lambda>returns.
         if length returns = 11 then Inl (LibraryError ''LU decomposition error'')
         else Inr [''ar.L1'' \<mapsto> Num 0.5, ''ma.L1'' \<mapsto> Num 0.25]),
      garch_fit = (\<lambda>returns.
         if length returns = 13 then Inl (LibraryError ''optimizer did not converge'')
         else Inr ([''omega'' \<mapsto> Num 1, ''alpha[1]'' \<mapsto> Num 0.125, ''beta'' \<mapsto> Num 0.75],
              [Num 2, Num 3])),
      sink_client = (\<lambda>symbol. None),
      sink_insert = (\<lambda>row. Some (LibraryError ''insert timed out''))\<rparr>"

text \<open>
  A FittedModel as the data model types it: a dictionary whose values are floats, beside
  the success flag, the optional error message, and the two sub-mappings "arma" and
  "garch" of the nested form, themselves dictionaries of floats.
\<close>

definition is_bool :: "pyval \<Rightarrow> bool" where
  "is_bool v = (case v of PBool b \<Rightarrow> True | _ \<Rightarrow> False)"

definition is_str :: "pyval \<Rightarrow> bool" where
  "is_str v = (case v of PStr s \<Rightarrow> True | _ \<Rightarrow> False)"

definition coefficient_map :: "pyval \<Rightarrow> bool" where
  "coefficient_map v = (case v of PDict d \<Rightarrow> list_all (\<lambda>(k, x). is_float x) d | _ \<Rightarrow> False)"

definition fitted_model :: "pyval \<Rightarrow> bool" where
  "fitted_model metrics =
     (case metrics of
        PDict d \<Rightarrow>
          list_all (\<lambda>(k, v).
            if k = ''arma'' \<or> k = ''garch'' then coefficient_map v
            else if k = ''success'' then is_bool v
            else if k = ''error'' then is_str v \<or> v = PNone
            else is_float v) d
      | _ \<Rightarrow> False)"

text \<open>The entry of a key of a sub-mapping, when the sub-mapping is there.\<close>

definition nested :: "dict \<Rightarrow> string \<Rightarrow> string \<Rightarrow> pyval option" where
  "nested d sub k = (case map_of d sub of Some (PDict a) \<Rightarrow> map_of a k | _ \<Rightarrow> None)"

text \<open>
  Two ways to pick among candidates given in priority order. \<open>first_present\<close> follows
  the words "first match wins": the first candidate whose key is there, else 0.0.
  \<open>first_truthy\<close> passes over a candidate that is there but falsy (the float 0.0).
\<close>

fun first_present :: "pyval option list \<Rightarrow> pyval" where
  "first_present [] = PFloat (Num 0)"
| "first_present (None # cs) = first_present cs"
| "first_present (Some v # cs) = v"

fun first_truthy :: "pyval option list \<Rightarrow> pyval" where
  "first_truthy [] = PFloat (Num 0)"
| "first_truthy (None # cs) = first_truthy cs"
| "first_truthy (Some v # cs) = (if truthy v then v else first_truthy cs)"

text \<open>The candidates of the three fields that \<^verbatim>\<open>save_model_results\<close> reads.\<close>

definition ar_candidates :: "dict \<Rightarrow> pyval option list" where
  "ar_candidates d = [map_of d ''ar_coeff'', nested d ''arma'' ''ar_coef'', nested d ''arma'' ''ar_coeff'']"

definition ma_candidates :: "dict \<Rightarrow> pyval option list" where
  "ma_candidates d = [map_of d ''ma_coeff'', nested d ''arma'' ''ma_coef'', nested d ''arma'' ''ma_coeff'']"

definition volatility_candidates :: "dict \<Rightarrow> pyval option list" where
  "volatility_candidates d =
     [map_of d ''garch_volatility'', nested d ''garch'' ''last_volatility'',
      nested d ''garch'' ''garch_volatility'']"

text \<open>
  The nested form of an input and the flattened form that carries the same values. A
  sub-mapping carries a field under either of its two names, the first name when both are
  there. \<open>zero_shadows\<close> says that the first name holds 0.0 while the second holds
  another value.
\<close>

definition as_pydict :: "(string \<times> fval) list \<Rightarrow> pyval" where
  "as_pydict cs = PDict (map (\<lambda>(k, x). (k, PFloat x)) cs)"

definition nested_form :: "(string \<times> fval) list \<Rightarrow> (string \<times> fval) list \<Rightarrow> pyval" where
  "nested_form arma garch = PDict [(''arma'', as_pydict arma), (''garch'', as_pydict garch)]"

definition carried :: "(string \<times> fval) list \<Rightarrow> string \<Rightarrow> string \<Rightarrow> fval option" where
  "carried cs k1 k2 = (case map_of cs k1 of Some x \<Rightarrow> Some x | None \<Rightarrow> map_of cs k2)"

definition flat_entry :: "string \<Rightarrow> fval option \<Rightarrow> dict" where
  "flat_entry k c = (case c of Some x \<Rightarrow> [(k, PFloat x)] | None \<Rightarrow> [])"

definition flattened_form :: "(string \<times> fval) list \<Rightarrow> (string \<times> fval) list \<Rightarrow> pyval" where
  "flattened_form arma garch =
     PDict (flat_entry ''ar_coeff'' (carried arma ''ar_coef'' ''ar_coeff'')
            @ flat_entry ''ma_coeff'' (carried arma ''ma_coef'' ''ma_coeff'')
            @ flat_entry ''garch_volatility'' (carried garch ''last_volatility'' ''garch_volatility''))"

definition zero_shadows :: "(string \<times> fval) list \<Rightarrow> string \<Rightarrow> string \<Rightarrow> bool" where
  "zero_shadows cs k1 k2 =
     (map_of cs k1 = Some (Num 0) \<and> map_of cs k2 \<noteq> None \<and> map_of cs k2 \<noteq> Some (Num 0))"

text \<open>The three fields as the words "first match wins" resolve them.\<close>

definition first_match_metrics :: "dict \<Rightarrow> pyval \<times> pyval \<times> pyval" where
  "first_match_metrics d =
     (first_present (ar_candidates d), first_present (ma_candidates d),
      first_present (volatility_candidates d))"

section \<open>The Model Fitter's result and the two loops\<close>

lemma populate_eq:
  "populate_garch (populate_arma initial_results ap) gp vols =
     (if vols = [] then Inl (IndexError ''single positional indexer is out-of-bounds'')
      else Inr (flattened_results ap gp (last vols)))"
  by (simp add: populate_garch_def populate_arma_def initial_results_def iloc_last_def
      flattened_results_def)

lemma try_fit_eq:
  "try_fit env returns =
     (if length returns < 10
      then (failure ''Not enough return observations to train models'', [])
      else
        (case arima_fit env returns of
           Inl e \<Rightarrow> (failure (str_exc e), [ArimaFit returns])
         | Inr ap \<Rightarrow>
        (case garch_fit env returns of
           Inl e \<Rightarrow> (failure (str_exc e), [ArimaFit returns, GarchFit returns])
         | Inr (gp, vols) \<Rightarrow>
             (if vols = [] then failure ''single positional indexer is out-of-bounds''
              else flattened_results ap gp (last vols),
              [ArimaFit returns, GarchFit returns]))))"
  by (simp add: try_fit_def fit_models_def populate_eq split: sum.splits prod.splits)

lemma train_and_extract_params_eq:
  "train_and_extract_params env prices =
     (case returns_of env prices of
        Inl e \<Rightarrow> (Inl e, [])
      | Inr returns \<Rightarrow> (Inr (fst (try_fit env returns)), snd (try_fit env returns)))"
  by (simp add: train_and_extract_params_def case_prod_beta split: sum.splits)

lemma numbers_map_Number [simp]: "numbers (map Number xs) = Some xs"
  by (induction xs) auto

lemma returns_of_numbers [simp]: "returns_of env (map Number xs) = Inr (log_returns xs)"
  by (simp add: returns_of_def)

lemma success_failure [simp]: "dict_get (failure m) ''success'' = PBool False"
  by (simp add: dict_get_def failure_def)

lemma error_failure [simp]: "dict_get (failure m) ''error'' = PStr m"
  by (simp add: dict_get_def failure_def)

lemma success_flattened [simp]: "dict_get (flattened_results ap gp v) ''success'' = PBool True"
  by (simp add: dict_get_def flattened_results_def)

lemma try_success_iff:
  "truthy (dict_get (fst (try_fit env returns)) ''success'') \<longleftrightarrow>
     10 \<le> length returns \<and>
     (case arima_fit env returns of
        Inl e \<Rightarrow> False
      | Inr ap \<Rightarrow>
          (case garch_fit env returns of
             Inl e \<Rightarrow> False
           | Inr (gp, vols) \<Rightarrow> vols \<noteq> []))"
  by (simp add: try_fit_eq split: sum.splits prod.splits)

text \<open>What the body of a loop yields for one symbol.\<close>

lemma fst_sync_body:
  "fst (sync_body env symbol) =
     (case uncaught env symbol of
        Some e \<Rightarrow> Inl e
      | None \<Rightarrow>
          Inr (if fit_succeeded env symbol
               then Some (AList.update ''symbol'' (PStr symbol) (model_result_of env symbol))
               else None))"
  by (auto simp: sync_body_def fit_succeeded_def uncaught_def model_result_of_def
      fetch_price_history_def train_and_extract_params_eq try_success_iff case_prod_beta Let_def
      split: sum.splits)

lemma fst_batch_body:
  "fst (batch_body env symbol) =
     (case uncaught env symbol of
        Some e \<Rightarrow> Inl e
      | None \<Rightarrow> Inr (if fit_succeeded env symbol then Some [(symbol, PStr ''Success'')] else None))"
  by (auto simp: batch_body_def fit_succeeded_def uncaught_def fetch_price_history_def
      train_and_extract_params_eq try_success_iff case_prod_beta Let_def split: sum.splits)

text \<open>
  Each loop appends what its body yields, symbol after symbol, and stops at the first symbol
  whose processing raises.
\<close>

lemma fst_sync_loop:
  "fst (sync_loop env symbols acc) =
     (case first_uncaught env symbols of
        Some e \<Rightarrow> Inl e
      | None \<Rightarrow>
          Inr (acc @ map (\<lambda>s. AList.update ''symbol'' (PStr s) (model_result_of env s))
                       (filter (fit_succeeded env) symbols)))"
proof (induction symbols arbitrary: acc)
  case Nil
  then show ?case by simp
next
  case (Cons s symbols)
  obtain r ev where b: "sync_body env s = (r, ev)"
    by (cases "sync_body env s")
  with fst_sync_body [of env s]
  have r: "r = (case uncaught env s of
        Some e \<Rightarrow> Inl e
      | None \<Rightarrow>
          Inr (if fit_succeeded env s
               then Some (AList.update ''symbol'' (PStr s) (model_result_of env s))
               else None))"
    by simp
  show ?case
    by (simp add: b r Cons.IH case_prod_beta split: option.splits)
qed

lemma fst_batch_loop:
  "fst (batch_loop env symbols acc) =
     (case first_uncaught env symbols of
        Some e \<Rightarrow> Inl e
      | None \<Rightarrow>
          Inr (acc @ map (\<lambda>s. [(s, PStr ''Success'')]) (filter (fit_succeeded env) symbols)))"
proof (induction symbols arbitrary: acc)
  case Nil
  then show ?case by simp
next
  case (Cons s symbols)
  obtain r ev where b: "batch_body env s = (r, ev)"
    by (cases "batch_body env s")
  with fst_batch_body [of env s]
  have r: "r = (case uncaught env s of
        Some e \<Rightarrow> Inl e
      | None \<Rightarrow> Inr (if fit_succeeded env s then Some [(s, PStr ''Success'')] else None))"
    by simp
  show ?case
    by (simp add: b r Cons.IH case_prod_beta split: option.splits)
qed

lemma fst_process_batch_logic_sync:
  "fst (process_batch_logic_sync env symbols) =
     (case first_uncaught env symbols of
        Some e \<Rightarrow> Inl e
      | None \<Rightarrow>
          Inr (map (\<lambda>s. AList.update ''symbol'' (PStr s) (model_result_of env s))
                 (filter (fit_succeeded env) symbols)))"
proof -
  obtain r evs where l: "sync_loop env symbols [] = (r, evs)"
    by (cases "sync_loop env symbols []")
  with fst_sync_loop [of env symbols "[]"] show ?thesis
    by (auto simp: process_batch_logic_sync_def split: option.splits sum.splits)
qed

lemma fst_process_batch_logic:
  "fst (process_batch_logic env symbols) =
     (case first_uncaught env symbols of
        Some e \<Rightarrow> Inl e
      | None \<Rightarrow> Inr (map (\<lambda>s. [(s, PStr ''Success'')]) (filter (fit_succeeded env) symbols)))"
proof -
  obtain r evs where l: "batch_loop env symbols [] = (r, evs)"
    by (cases "batch_loop env symbols []")
  with fst_batch_loop [of env symbols "[]"] show ?thesis
    by (auto simp: process_batch_logic_def split: option.splits sum.splits)
qed

text \<open>The trace of a loop that runs through is the traces of its symbols, joined.\<close>

lemma snd_sync_loop:
  "first_uncaught env symbols = None \<Longrightarrow>
   snd (sync_loop env symbols acc) = concat (map (\<lambda>s. snd (sync_body env s)) symbols)"
proof (induction symbols arbitrary: acc)
  case Nil
  then show ?case by simp
next
  case (Cons s symbols)
  from Cons.prems have u: "uncaught env s = None" "first_uncaught env symbols = None"
    by (auto split: option.splits)
  obtain r ev where b: "sync_body env s = (r, ev)"
    by (cases "sync_body env s")
  with fst_sync_body [of env s] u(1) obtain x where r: "r = Inr x"
    by auto
  show ?case
    by (simp add: b r Cons.IH [OF u(2)] case_prod_beta)
qed

lemma snd_batch_loop:
  "first_uncaught env symbols = None \<Longrightarrow>
   snd (batch_loop env symbols acc) = concat (map (\<lambda>s. snd (batch_body env s)) symbols)"
proof (induction symbols arbitrary: acc)
  case Nil
  then show ?case by simp
next
  case (Cons s symbols)
  from Cons.prems have u: "uncaught env s = None" "first_uncaught env symbols = None"
    by (auto split: option.splits)
  obtain r ev where b: "batch_body env s = (r, ev)"
    by (cases "batch_body env s")
  with fst_batch_body [of env s] u(1) obtain x where r: "r = Inr x"
    by auto
  show ?case
    by (simp add: b r Cons.IH [OF u(2)] case_prod_beta)
qed

text \<open>Whether it runs through or not, a loop's trace holds only events of its symbols.\<close>

lemma set_snd_batch_loop:
  "set (snd (batch_loop env symbols acc)) \<subseteq> (\<Union>s \<in> set symbols. set (snd (batch_body env s)))"
proof (induction symbols arbitrary: acc)
  case Nil
  then show ?case by simp
next
  case (Cons s symbols)
  obtain r ev where b: "batch_body env s = (r, ev)"
    by (cases "batch_body env s")
  show ?case
  proof (cases r)
    case (Inl e)
    then show ?thesis by (simp add: b)
  next
    case (Inr x)
    then show ?thesis
      using Cons.IH [of "case x of None \<Rightarrow> acc | Some s \<Rightarrow> acc @ [s]"]
      by (auto simp: b case_prod_beta)
  qed
qed

text \<open>Numeric prices never make the return computation raise.\<close>

lemma numeric_prices_uncaught:
  "numeric_prices env symbols \<Longrightarrow> first_uncaught env symbols = None"
proof (induction symbols)
  case Nil
  then show ?case by simp
next
  case (Cons s symbols)
  from Cons.prems have "uncaught env s = None"
    by (auto simp: numeric_prices_def uncaught_def returns_of_def split: sum.splits)
  with Cons show ?case
    by (simp add: numeric_prices_def)
qed

lemma model_result_of_succeeded:
  "fit_succeeded env s \<Longrightarrow>
   \<exists>ap gp v. model_result_of env s = flattened_results ap gp v"
  by (auto simp: fit_succeeded_def model_result_of_def fetch_price_history_def
      train_and_extract_params_eq try_fit_eq split: sum.splits)

lemma tagged_flattened:
  "AList.update ''symbol'' (PStr s) (flattened_results ap gp v) =
     flattened_results ap gp v @ [(''symbol'', PStr s)]"
  by (simp add: flattened_results_def)

lemma fully_populated_tagged:
  "fully_populated (flattened_results ap gp v @ [(''symbol'', PStr s)])"
  by (simp add: fully_populated_def seven_fields_def flattened_results_def dict_get_def is_float_def)

lemma symbol_of_tagged: "dict_get (AList.update ''symbol'' (PStr s) d) ''symbol'' = PStr s"
  by (simp add: dict_get_def update_conv')

lemma np_log_ratio_pos:
  "0 < prev \<Longrightarrow> 0 < cur \<Longrightarrow> np_log_ratio cur prev = Num (ln (cur / prev))"
  by (simp add: np_log_ratio_def not_less)

lemma example_lengths:
  "length (log_returns [100, 101, 102, 103, 104, 105, 106, 107, 108, 109, 110]) = 10"
  "length (log_returns [50, 51, 52, 53, 54, 55, 56, 57, 58, 59, 60, 61, 62]) = 12"
  "length (log_returns [20, 21, 22, 23, 24, 25, 26, 27, 28, 29, 30, 31]) = 11"
  "length (log_returns [1, 2, 3, 4, 5, 6, 7, 8, 9, 10]) = 9"
  "length (log_returns [30, 31, 32, 33, 34, 35, 36, 37, 38, 39, 40, 41, 42, 43]) = 13"
  by (simp_all add: log_returns_def np_log_ratio_pos)

lemma short_not_succeeded:
  "length (fst (fetch_price_history env s)) < 10 \<Longrightarrow> \<not> fit_succeeded env s"
  by (auto simp: fit_succeeded_def fetch_price_history_def split: sum.splits)

lemma short_not_uncaught:
  "length (fst (fetch_price_history env s)) < 10 \<Longrightarrow> uncaught env s = None"
  by (auto simp: uncaught_def fetch_price_history_def split: sum.splits)

lemma insert_in_save:
  "is_insert_for s e \<Longrightarrow> e \<in> set (save_model_results env s' metrics) \<Longrightarrow> s = s'"
  by (auto simp: save_model_results_def is_insert_for_def split: option.splits sum.splits prod.splits)

lemma insert_in_batch_body:
  assumes "e \<in> set (snd (batch_body env s'))" "is_insert_for s e"
  shows "s = s' \<and> fit_succeeded env s'"
proof -
  have notfetch: "e \<notin> set (snd (fetch_price_history env s'))"
    using assms(2) by (auto simp: fetch_price_history_def is_insert_for_def split: sum.splits)
  have nottry: "e \<notin> set (snd (try_fit env r))" for r
    using assms(2)
    by (auto simp: try_fit_eq is_insert_for_def split: sum.splits)
  have nottrain: "e \<notin> set (snd (train_and_extract_params env p))" for p
    using nottry by (auto simp: train_and_extract_params_eq split: sum.splits)
  have notlog: "e \<noteq> Log l m" for l m
    using assms(2) by (auto simp: is_insert_for_def)
  from assms(1) notfetch nottrain notlog
  have "\<exists>d. e \<in> set (save_model_results env s' d) \<and> fst (batch_body env s') = Inr (Some [(s', PStr ''Success'')])"
    by (auto simp: batch_body_def Let_def case_prod_beta split: if_splits sum.splits prod.splits)
  then show ?thesis
    using assms(2) insert_in_save
    by (auto simp: fst_batch_body split: if_splits option.splits)
qed

lemma length_log_returns_le: "length (log_returns prices) \<le> length prices - 1"
proof -
  have "length (log_returns prices) \<le> length (zip prices (tl prices))"
    unfolding log_returns_def length_map
    by (rule order_trans [OF length_filter_le]) simp
  then show ?thesis by simp
qed

text \<open>Reading a well-typed FittedModel.\<close>

lemma list_all_map_of:
  "list_all P d \<Longrightarrow> map_of d k = Some v \<Longrightarrow> P (k, v)"
  by (auto simp: list_all_iff dest: map_of_SomeD)

lemma fitted_model_flat:
  assumes "fitted_model (PDict d)" "k \<notin> {''arma'', ''garch'', ''success'', ''error''}"
  shows "map_of d k = None \<or> (\<exists>x. map_of d k = Some (PFloat x))"
proof (cases "map_of d k")
  case None
  then show ?thesis by simp
next
  case (Some v)
  from assms(1) have "list_all (\<lambda>(k, v).
            if k = ''arma'' \<or> k = ''garch'' then coefficient_map v
            else if k = ''success'' then is_bool v
            else if k = ''error'' then is_str v \<or> v = PNone
            else is_float v) d"
    by (simp add: fitted_model_def)
  from list_all_map_of [OF this Some] assms(2) have "is_float v"
    by auto
  with Some show ?thesis
    by (cases v) (auto simp: is_float_def)
qed

lemma fitted_model_sub:
  assumes "fitted_model (PDict d)" "sub = ''arma'' \<or> sub = ''garch''"
  shows "map_of d sub = None \<or> (\<exists>a. map_of d sub = Some (PDict a) \<and> list_all (\<lambda>(k, x). is_float x) a)"
proof (cases "map_of d sub")
  case None
  then show ?thesis by simp
next
  case (Some v)
  from assms(1) have "list_all (\<lambda>(k, v).
            if k = ''arma'' \<or> k = ''garch'' then coefficient_map v
            else if k = ''success'' then is_bool v
            else if k = ''error'' then is_str v \<or> v = PNone
            else is_float v) d"
    by (simp add: fitted_model_def)
  from list_all_map_of [OF this Some] assms(2) have "coefficient_map v"
    by auto
  with Some show ?thesis
    by (cases v) (auto simp: coefficient_map_def)
qed

text \<open>One cascade of the source, for a sub-mapping that is a dictionary.\<close>

lemma cascade_eq:
  assumes "py_get (PDict d) sub (PDict []) = Inr (PDict a)"
  shows "py_or (py_get (PDict d) k PNone)
          (py_or (py_get (PDict a) k1 PNone)
            (py_or (py_get (PDict a) k2 PNone) (Inr (PFloat (Num 0)))))
         = Inr (first_truthy [map_of d k, nested d sub k1, nested d sub k2])"
  using assms
  by (auto simp: py_or_def nested_def split: option.splits)

lemma resolve_metrics_fitted:
  assumes "fitted_model (PDict d)"
  shows "resolve_metrics (PDict d) =
    Inr (first_truthy (ar_candidates d), first_truthy (ma_candidates d),
         first_truthy (volatility_candidates d))"
proof -
  obtain a where a: "py_get (PDict d) ''arma'' (PDict []) = Inr (PDict a)"
    using fitted_model_sub [OF assms, of "''arma''"] by auto
  obtain g where g: "py_get (PDict d) ''garch'' (PDict []) = Inr (PDict g)"
    using fitted_model_sub [OF assms, of "''garch''"] by auto
  have d: "is_dict (PDict d)"
    by (simp add: is_dict_def)
  show ?thesis
    unfolding resolve_metrics_def
    by (simp add: d a g cascade_eq [OF a] cascade_eq [OF g]
        ar_candidates_def ma_candidates_def volatility_candidates_def del: py_get.simps)
qed

lemma first_truthy_float:
  "list_all (\<lambda>c. case c of None \<Rightarrow> True | Some v \<Rightarrow> is_float v) cs \<Longrightarrow>
   \<exists>x. first_truthy cs = PFloat x"
  by (induction cs rule: first_truthy.induct) (auto simp: is_float_def split: pyval.splits)

lemma nested_float:
  assumes "fitted_model (PDict d)" "sub = ''arma'' \<or> sub = ''garch''"
  shows "case nested d sub k of None \<Rightarrow> True | Some v \<Rightarrow> is_float v"
proof (cases "nested d sub k")
  case None
  then show ?thesis by simp
next
  case (Some v)
  then obtain a where a: "map_of d sub = Some (PDict a)" "map_of a k = Some v"
    by (auto simp: nested_def split: option.splits pyval.splits)
  with fitted_model_sub [OF assms] have "list_all (\<lambda>(k, x). is_float x) a"
    by auto
  from list_all_map_of [OF this a(2)] Some show ?thesis
    by simp
qed

lemma flat_float:
  assumes "fitted_model (PDict d)" "k \<notin> {''arma'', ''garch'', ''success'', ''error''}"
  shows "case map_of d k of None \<Rightarrow> True | Some v \<Rightarrow> is_float v"
  using fitted_model_flat [OF assms] by (auto simp: is_float_def)

lemma resolve_metrics_numeric:
  assumes "fitted_model metrics"
  shows "\<exists>a m v. resolve_metrics metrics = Inr (PFloat a, PFloat m, PFloat v)"
proof -
  from assms obtain d where d: "metrics = PDict d"
    by (cases metrics) (auto simp: fitted_model_def)
  note f = assms [unfolded d]
  have "\<exists>x. first_truthy (ar_candidates d) = PFloat x"
    by (rule first_truthy_float)
       (simp add: ar_candidates_def flat_float [OF f] nested_float [OF f])
  moreover have "\<exists>x. first_truthy (ma_candidates d) = PFloat x"
    by (rule first_truthy_float)
       (simp add: ma_candidates_def flat_float [OF f] nested_float [OF f])
  moreover have "\<exists>x. first_truthy (volatility_candidates d) = PFloat x"
    by (rule first_truthy_float)
       (simp add: volatility_candidates_def flat_float [OF f] nested_float [OF f])
  ultimately show ?thesis
    unfolding d resolve_metrics_fitted [OF f] by auto
qed

lemma fitted_model_flattened_results: "fitted_model (PDict (flattened_results ap gp v))"
  by (simp add: fitted_model_def flattened_results_def is_float_def is_bool_def)

lemma fully_populated_flattened_results: "fully_populated (flattened_results ap gp v)"
  by (simp add: fully_populated_def seven_fields_def flattened_results_def dict_get_def is_float_def)

lemma populate_garch_alpha_beta:
  assumes "populate_garch res gp vols = Inr r"
  shows "dict_get r ''alpha'' =
           PFloat (case gp ''alpha[1]'' of Some x \<Rightarrow> x
                   | None \<Rightarrow> (case gp ''alpha'' of Some x \<Rightarrow> x | None \<Rightarrow> Num 0))"
    and "dict_get r ''beta'' =
           PFloat (case gp ''beta[1]'' of Some x \<Rightarrow> x
                   | None \<Rightarrow> (case gp ''beta'' of Some x \<Rightarrow> x | None \<Rightarrow> Num 0))"
  using assms
  by (auto simp: populate_garch_def Let_def dict_get_def update_conv' params_get_def
      split: sum.splits option.splits)


text \<open>The example world.\<close>

lemma example_numeric:
  "numeric_prices example_env symbols \<longleftrightarrow> ''DEC'' \<notin> set symbols"
  by (induction symbols) (auto simp: numeric_prices_def example_env_def example_prices_def)

lemma example_query:
  "price_query example_env ''AAPL'' =
     Inr (map Number [100, 101, 102, 103, 104, 105, 106, 107, 108, 109, 110])"
  "price_query example_env ''MSFT'' =
     Inr (map Number [50, 51, 52, 53, 54, 55, 56, 57, 58, 59, 60, 61, 62])"
  "price_query example_env ''XYZ'' =
     Inr (map Number [20, 21, 22, 23, 24, 25, 26, 27, 28, 29, 30, 31])"
  "price_query example_env ''VOL'' =
     Inr (map Number [30, 31, 32, 33, 34, 35, 36, 37, 38, 39, 40, 41, 42, 43])"
  "price_query example_env ''TEN'' = Inr (map Number [1, 2, 3, 4, 5, 6, 7, 8, 9, 10])"
  "price_query example_env ''ZZZZ'' = Inr (map Number [1, 2, 3, 4, 5])"
  "price_query example_env ''DEC'' =
     Inr (map Decimal [70, 71, 72, 73, 74, 75, 76, 77, 78, 79, 80])"
  "price_query example_env ''DOWN'' = Inl (LibraryError ''connection refused'')"
  "price_query example_env ''NONE'' = Inr []"
  by (simp_all add: example_env_def example_prices_def del: list.map)

lemma example_estimators:
  "arima_fit example_env returns =
     (if length returns = 11 then Inl (LibraryError ''LU decomposition error'')
      else Inr [''ar.L1'' \<mapsto> Num 0.5, ''ma.L1'' \<mapsto> Num 0.25])"
  "garch_fit example_env returns =
     (if length returns = 13 then Inl (LibraryError ''optimizer did not converge'')
      else Inr ([''omega'' \<mapsto> Num 1, ''alpha[1]'' \<mapsto> Num 0.125, ''beta'' \<mapsto> Num 0.75],
                [Num 2, Num 3]))"
  by (simp_all add: example_env_def)

lemma example_decimal:
  "returns_of example_env (map Decimal [70, 71, 72, 73, 74, 75, 76, 77, 78, 79, 80]) =
     Inl (TypeError ''loop of ufunc does not support argument 0'')"
  by (simp add: returns_of_def example_env_def)

lemma example_fit_succeeded:
  "fit_succeeded example_env ''AAPL''" "fit_succeeded example_env ''MSFT''"
  "\<not> fit_succeeded example_env ''XYZ''" "\<not> fit_succeeded example_env ''VOL''"
  "\<not> fit_succeeded example_env ''TEN''" "\<not> fit_succeeded example_env ''ZZZZ''"
  "\<not> fit_succeeded example_env ''DEC''" "\<not> fit_succeeded example_env ''DOWN''"
  "\<not> fit_succeeded example_env ''NONE''"
  by (simp_all add: fit_succeeded_def example_query example_estimators example_lengths
      example_decimal del: list.map)

lemma example_model_result:
  "model_result_of example_env ''AAPL'' =
     flattened_results [''ar.L1'' \<mapsto> Num 0.5, ''ma.L1'' \<mapsto> Num 0.25]
       [''omega'' \<mapsto> Num 1, ''alpha[1]'' \<mapsto> Num 0.125, ''beta'' \<mapsto> Num 0.75] (Num 3)"
  "model_result_of example_env ''MSFT'' =
     flattened_results [''ar.L1'' \<mapsto> Num 0.5, ''ma.L1'' \<mapsto> Num 0.25]
       [''omega'' \<mapsto> Num 1, ''alpha[1]'' \<mapsto> Num 0.125, ''beta'' \<mapsto> Num 0.75] (Num 3)"
  by (simp_all add: model_result_of_def fetch_price_history_def example_query
      train_and_extract_params_eq try_fit_eq example_estimators example_lengths del: list.map)

lemma example_uncaught:
  "uncaught example_env ''DEC'' = Some (TypeError ''loop of ufunc does not support argument 0'')"
  "uncaught example_env ''AAPL'' = None" "uncaught example_env ''MSFT'' = None"
  by (simp_all add: uncaught_def example_query example_decimal del: list.map)

lemma succeeded_not_uncaught: "fit_succeeded env s \<Longrightarrow> uncaught env s = None"
  by (auto simp: fit_succeeded_def uncaught_def split: sum.splits)

lemma flattened_keys:
  "map fst (flattened_results ap gp v @ [(''symbol'', PStr s)]) =
     ''success'' # seven_fields @ [''symbol'']"
  by (simp add: flattened_results_def seven_fields_def)

lemma example_first_uncaught:
  "''DEC'' \<notin> set symbols \<Longrightarrow> first_uncaught example_env symbols = None"
  by (rule numeric_prices_uncaught) (simp add: example_numeric)

section \<open>What the synchronous batch returns\<close>

text \<open>
  C1. For every symbol list, \<^verbatim>\<open>process_batch_logic_sync\<close> either raises the exception
  of the first symbol whose return computation raises, or returns the Model Fitter's
  records of exactly the symbols whose fit succeeded, in the order of the input list, each
  with its symbol under the key "symbol". It returns, in particular, whenever every fetched
  price is a number. No returned record has an "error" key and each has "success" true,
  so a skipped or failed symbol leaves nothing in the list. The endpoint hands that list
  back as "results" for a non-empty symbol list.
\<close>

theorem sync_batch_returns_successes_in_order:
  "fst (process_batch_logic_sync env symbols) =
     (case first_uncaught env symbols of
        Some e \<Rightarrow> Inl e
      | None \<Rightarrow>
          Inr (map (\<lambda>s. AList.update ''symbol'' (PStr s) (model_result_of env s))
                 (filter (fit_succeeded env) symbols)))
   \<and> (numeric_prices env symbols \<longrightarrow> first_uncaught env symbols = None)
   \<and> (first_uncaught env symbols = None \<longrightarrow>
        fst (process_batch_logic_sync env symbols) =
          Inr (map (\<lambda>s. AList.update ''symbol'' (PStr s) (model_result_of env s))
                 (filter (fit_succeeded env) symbols))
        \<and> map (\<lambda>r. dict_get r ''symbol'') (returned (fst (process_batch_logic_sync env symbols))) =
            map PStr (filter (fit_succeeded env) symbols))
   \<and> list_all (\<lambda>r. map_of r ''error'' = None \<and> dict_get r ''success'' = PBool True)
       (returned (fst (process_batch_logic_sync env symbols)))
   \<and> (symbols \<noteq> [] \<and> first_uncaught env symbols = None \<longrightarrow>
       fst (trigger_training_sync env symbols) =
         Inr \<lparr>status = ''Processing complete'',
              results = map (\<lambda>s. AList.update ''symbol'' (PStr s) (model_result_of env s))
                          (filter (fit_succeeded env) symbols)\<rparr>)"
proof -
  have ok: "map_of (AList.update ''symbol'' (PStr s) (model_result_of env s)) ''error'' = None
            \<and> dict_get (AList.update ''symbol'' (PStr s) (model_result_of env s)) ''success''
                = PBool True"
    if "fit_succeeded env s" for s
  proof -
    from that obtain ap gp v where "model_result_of env s = flattened_results ap gp v"
      using model_result_of_succeeded by blast
    then show ?thesis
      by (simp add: tagged_flattened) (simp add: flattened_results_def dict_get_def)
  qed
  have a: "fst (process_batch_logic_sync env symbols) =
     (case first_uncaught env symbols of
        Some e \<Rightarrow> Inl e
      | None \<Rightarrow>
          Inr (map (\<lambda>s. AList.update ''symbol'' (PStr s) (model_result_of env s))
                 (filter (fit_succeeded env) symbols)))"
    by (rule fst_process_batch_logic_sync)
  have b: "numeric_prices env symbols \<longrightarrow> first_uncaught env symbols = None"
    using numeric_prices_uncaught by blast
  have c: "first_uncaught env symbols = None \<longrightarrow>
        fst (process_batch_logic_sync env symbols) =
          Inr (map (\<lambda>s. AList.update ''symbol'' (PStr s) (model_result_of env s))
                 (filter (fit_succeeded env) symbols))
        \<and> map (\<lambda>r. dict_get r ''symbol'') (returned (fst (process_batch_logic_sync env symbols))) =
            map PStr (filter (fit_succeeded env) symbols)"
    by (simp add: a returned_def symbol_of_tagged comp_def)
  have d: "list_all (\<lambda>r. map_of r ''error'' = None \<and> dict_get r ''success'' = PBool True)
       (returned (fst (process_batch_logic_sync env symbols)))"
    by (cases "first_uncaught env symbols") (simp_all add: a returned_def list_all_iff ok)
  have e: "symbols \<noteq> [] \<and> first_uncaught env symbols = None \<longrightarrow>
       fst (trigger_training_sync env symbols) =
         Inr \<lparr>status = ''Processing complete'',
              results = map (\<lambda>s. AList.update ''symbol'' (PStr s) (model_result_of env s))
                          (filter (fit_succeeded env) symbols)\<rparr>"
  proof (intro impI)
    assume h: "symbols \<noteq> [] \<and> first_uncaught env symbols = None"
    obtain r evs where p: "process_batch_logic_sync env symbols = (r, evs)"
      by (cases "process_batch_logic_sync env symbols")
    with a h have "r = Inr (map (\<lambda>s. AList.update ''symbol'' (PStr s) (model_result_of env s))
                          (filter (fit_succeeded env) symbols))"
      by simp
    with h p show "fst (trigger_training_sync env symbols) =
         Inr \<lparr>status = ''Processing complete'',
              results = map (\<lambda>s. AList.update ''symbol'' (PStr s) (model_result_of env s))
                          (filter (fit_succeeded env) symbols)\<rparr>"
      by (simp add: trigger_training_sync_def)
  qed
  from a b c d e show ?thesis by blast
qed

theorem sync_batch_returns_successes_in_order_witness:
  "numeric_prices example_env [''AAPL'', ''ZZZZ'', ''XYZ'', ''NONE'', ''MSFT'']
   \<and> fst (trigger_training_sync example_env [''AAPL'', ''ZZZZ'', ''XYZ'', ''NONE'', ''MSFT'']) =
     Inr \<lparr>status = ''Processing complete'',
          results =
            [flattened_results [''ar.L1'' \<mapsto> Num 0.5, ''ma.L1'' \<mapsto> Num 0.25]
               [''omega'' \<mapsto> Num 1, ''alpha[1]'' \<mapsto> Num 0.125, ''beta'' \<mapsto> Num 0.75] (Num 3)
             @ [(''symbol'', PStr ''AAPL'')],
             flattened_results [''ar.L1'' \<mapsto> Num 0.5, ''ma.L1'' \<mapsto> Num 0.25]
               [''omega'' \<mapsto> Num 1, ''alpha[1]'' \<mapsto> Num 0.125, ''beta'' \<mapsto> Num 0.75] (Num 3)
             @ [(''symbol'', PStr ''MSFT'')]]\<rparr>"
proof -
  let ?syms = "[''AAPL'', ''ZZZZ'', ''XYZ'', ''NONE'', ''MSFT'']"
  have n: "numeric_prices example_env ?syms"
    by (simp add: example_numeric)
  note T = sync_batch_returns_successes_in_order [of example_env ?syms]
  from T n have u: "first_uncaught example_env ?syms = None"
    by blast
  with T have "fst (trigger_training_sync example_env ?syms) =
         Inr \<lparr>status = ''Processing complete'',
              results = map (\<lambda>s. AList.update ''symbol'' (PStr s) (model_result_of example_env s))
                          (filter (fit_succeeded example_env) ?syms)\<rparr>"
    by blast
  then have "fst (trigger_training_sync example_env ?syms) =
     Inr \<lparr>status = ''Processing complete'',
          results =
            [flattened_results [''ar.L1'' \<mapsto> Num 0.5, ''ma.L1'' \<mapsto> Num 0.25]
               [''omega'' \<mapsto> Num 1, ''alpha[1]'' \<mapsto> Num 0.125, ''beta'' \<mapsto> Num 0.75] (Num 3)
             @ [(''symbol'', PStr ''AAPL'')],
             flattened_results [''ar.L1'' \<mapsto> Num 0.5, ''ma.L1'' \<mapsto> Num 0.25]
               [''omega'' \<mapsto> Num 1, ''alpha[1]'' \<mapsto> Num 0.125, ''beta'' \<mapsto> Num 0.75] (Num 3)
             @ [(''symbol'', PStr ''MSFT'')]]\<rparr>"
    by (simp add: example_fit_succeeded example_model_result tagged_flattened)
  with n show ?thesis by blast
qed

section \<open>The normalised fields\<close>

lemma nested_absent: "map_of d sub = None \<Longrightarrow> nested d sub k = None"
  by (simp add: nested_def)

lemma not_populated_failure: "\<not> fully_populated (failure m)"
  by (simp add: fully_populated_def seven_fields_def failure_def dict_get_def is_float_def)

text \<open>
  C2. No function of the source returns the seven fields for every input. The function
  that builds the seven-field record, \<^verbatim>\<open>train_and_extract_params\<close>, returns the
  dictionary \<^verbatim>\<open>{"error": ..., "success": False}\<close>, with none of the seven fields, when
  the return series has fewer than ten observations (ten prices give nine returns), when
  an estimator raises, and when the volatility series is empty: \<^verbatim>\<open>iloc[-1]\<close> raises
  inside the \<^verbatim>\<open>try\<close> block and no default is put in its place. The cascade of
  \<^verbatim>\<open>save_model_results\<close>, the one place where a FittedModel mapping is read, yields the
  three stored fields only: \<^verbatim>\<open>const\<close>, \<^verbatim>\<open>omega\<close>, \<^verbatim>\<open>alpha\<close> and \<^verbatim>\<open>beta\<close> of its
  input are neither read nor stored.
\<close>

theorem failure_record_lacks_the_seven_fields:
  "fst (train_and_extract_params example_env (map Number [1, 2, 3, 4, 5, 6, 7, 8, 9, 10])) =
     Inr [(''error'', PStr ''Not enough return observations to train models''),
          (''success'', PBool False)]
   \<and> \<not> fully_populated [(''error'', PStr ''Not enough return observations to train models''),
                          (''success'', PBool False)]
   \<and> fst (train_and_extract_params example_env
            (map Number [20, 21, 22, 23, 24, 25, 26, 27, 28, 29, 30, 31])) =
       Inr [(''error'', PStr ''LU decomposition error''), (''success'', PBool False)]
   \<and> populate_garch (populate_arma initial_results Map.empty) Map.empty [] =
       Inl (IndexError ''single positional indexer is out-of-bounds'')
   \<and> fst (train_and_extract_params
            (example_env\<lparr>garch_fit := \<lambda>returns. Inr (Map.empty, [])\<rparr>)
            (map Number [100, 101, 102, 103, 104, 105, 106, 107, 108, 109, 110])) =
       Inr [(''error'', PStr ''single positional indexer is out-of-bounds''),
            (''success'', PBool False)]
   \<and> fitted_model (PDict [(''success'', PBool True), (''const'', PFloat (Num 0.5)),
                          (''omega'', PFloat (Num 1)), (''alpha'', PFloat (Num 0.125)),
                          (''beta'', PFloat (Num 0.75))])
   \<and> resolve_metrics (PDict [(''success'', PBool True), (''const'', PFloat (Num 0.5)),
                             (''omega'', PFloat (Num 1)), (''alpha'', PFloat (Num 0.125)),
                             (''beta'', PFloat (Num 0.75))]) =
       Inr (PFloat (Num 0), PFloat (Num 0), PFloat (Num 0))
   \<and> save_model_results (example_env\<lparr>sink_insert := \<lambda>row. None\<rparr>) ''AAPL''
            (PDict [(''success'', PBool True), (''const'', PFloat (Num 0.5)),
                    (''omega'', PFloat (Num 1)), (''alpha'', PFloat (Num 0.125)),
                    (''beta'', PFloat (Num 0.75))]) =
       [SinkInsert (''AAPL'', PFloat (Num 0), PFloat (Num 0), PFloat (Num 0)),
        Log INFO (StoredMetrics ''AAPL'')]"
proof -
  have short: "fst (train_and_extract_params example_env (map Number [1, 2, 3, 4, 5, 6, 7, 8, 9, 10])) =
     Inr [(''error'', PStr ''Not enough return observations to train models''),
          (''success'', PBool False)]"
    by (simp add: train_and_extract_params_eq try_fit_eq example_lengths failure_def
        del: list.map)
  have lacks: "\<not> fully_populated [(''error'', PStr ''Not enough return observations to train models''),
                          (''success'', PBool False)]"
    using not_populated_failure [of "''Not enough return observations to train models''"]
    by (simp add: failure_def)
  have arima: "fst (train_and_extract_params example_env
            (map Number [20, 21, 22, 23, 24, 25, 26, 27, 28, 29, 30, 31])) =
       Inr [(''error'', PStr ''LU decomposition error''), (''success'', PBool False)]"
    by (simp add: train_and_extract_params_eq try_fit_eq example_lengths example_estimators
        failure_def del: list.map)
  have empty_vol: "populate_garch (populate_arma initial_results Map.empty) Map.empty [] =
       Inl (IndexError ''single positional indexer is out-of-bounds'')"
    by (simp add: populate_eq)
  have a: "arima_fit (example_env\<lparr>garch_fit := \<lambda>returns. Inr (Map.empty, [])\<rparr>) returns =
      arima_fit example_env returns" for returns
    by simp
  have train_empty: "fst (train_and_extract_params
            (example_env\<lparr>garch_fit := \<lambda>returns. Inr (Map.empty, [])\<rparr>)
            (map Number [100, 101, 102, 103, 104, 105, 106, 107, 108, 109, 110])) =
       Inr [(''error'', PStr ''single positional indexer is out-of-bounds''),
            (''success'', PBool False)]"
    by (simp add: train_and_extract_params_eq try_fit_eq example_lengths a example_estimators
        failure_def del: list.map)
  let ?m = "PDict [(''success'', PBool True), (''const'', PFloat (Num 0.5)),
                          (''omega'', PFloat (Num 1)), (''alpha'', PFloat (Num 0.125)),
                          (''beta'', PFloat (Num 0.75))]"
  have fm: "fitted_model ?m"
    by (simp add: fitted_model_def is_float_def is_bool_def)
  have three: "resolve_metrics ?m = Inr (PFloat (Num 0), PFloat (Num 0), PFloat (Num 0))"
    by (simp add: resolve_metrics_def py_or_def is_dict_def dict_get_def)
  have row: "save_model_results (example_env\<lparr>sink_insert := \<lambda>row. None\<rparr>) ''AAPL'' ?m =
       [SinkInsert (''AAPL'', PFloat (Num 0), PFloat (Num 0), PFloat (Num 0)),
        Log INFO (StoredMetrics ''AAPL'')]"
    unfolding save_model_results_def three by (simp add: example_env_def)
  from short lacks arima empty_vol train_empty fm three row show ?thesis
    by blast
qed

text \<open>
  C2, amended. For every well-typed FittedModel mapping, the empty dictionary included,
  the cascade of \<^verbatim>\<open>save_model_results\<close> does not fail and yields its three fields
  \<^verbatim>\<open>ar_coeff\<close>, \<^verbatim>\<open>ma_coeff\<close>, \<^verbatim>\<open>garch_volatility\<close> as floats, each 0.0 when neither
  the flattened key nor a sub-mapping is there. For every pair of coefficient series of
  the two estimators, empty ones included, lines 46 to 67 build a record that holds all
  seven fields as floats, with 0.0 in each coefficient field whose name the estimator did
  not report, when the volatility series is non-empty, and raise when it is empty. The
  \<^verbatim>\<open>try\<close> block with its handler returns a record with all seven fields exactly when
  the return series has at least ten observations, both estimators return and the
  volatility series is non-empty; in every other case it returns the failure dictionary
  \<^verbatim>\<open>{"error": ..., "success": False}\<close>.
\<close>

theorem failure_or_seven_fields:
  "(fitted_model metrics \<longrightarrow>
      (\<exists>a m v. resolve_metrics metrics = Inr (PFloat a, PFloat m, PFloat v)))
   \<and> (fitted_model (PDict d) \<and> map_of d ''ar_coeff'' = None \<and> map_of d ''ma_coeff'' = None
        \<and> map_of d ''garch_volatility'' = None \<and> map_of d ''arma'' = None
        \<and> map_of d ''garch'' = None \<longrightarrow>
      resolve_metrics (PDict d) = Inr (PFloat (Num 0), PFloat (Num 0), PFloat (Num 0)))
   \<and> resolve_metrics (PDict []) = Inr (PFloat (Num 0), PFloat (Num 0), PFloat (Num 0))
   \<and> (vols \<noteq> [] \<longrightarrow>
        (\<exists>r. populate_garch (populate_arma initial_results ap) gp vols = Inr r
             \<and> fully_populated r \<and> fitted_model (PDict r)
             \<and> (ap ''ar.L1'' = None \<longrightarrow> dict_get r ''ar_coeff'' = PFloat (Num 0))
             \<and> (ap ''ma.L1'' = None \<longrightarrow> dict_get r ''ma_coeff'' = PFloat (Num 0))
             \<and> (ap ''const'' = None \<longrightarrow> dict_get r ''const'' = PFloat (Num 0))
             \<and> (gp ''omega'' = None \<longrightarrow> dict_get r ''omega'' = PFloat (Num 0))
             \<and> (gp ''alpha[1]'' = None \<and> gp ''alpha'' = None \<longrightarrow>
                  dict_get r ''alpha'' = PFloat (Num 0))
             \<and> (gp ''beta[1]'' = None \<and> gp ''beta'' = None \<longrightarrow>
                  dict_get r ''beta'' = PFloat (Num 0))))
   \<and> (vols = [] \<longrightarrow>
        populate_garch (populate_arma initial_results ap) gp vols =
          Inl (IndexError ''single positional indexer is out-of-bounds''))
   \<and> populate_garch (populate_arma initial_results Map.empty) Map.empty [v] =
       Inr [(''success'', PBool True), (''ar_coeff'', PFloat (Num 0)),
            (''ma_coeff'', PFloat (Num 0)), (''const'', PFloat (Num 0)),
            (''omega'', PFloat (Num 0)), (''alpha'', PFloat (Num 0)),
            (''beta'', PFloat (Num 0)), (''garch_volatility'', PFloat v)]
   \<and> (fully_populated (fst (try_fit env returns)) \<longleftrightarrow>
        10 \<le> length returns
        \<and> (\<exists>ap gp vols. arima_fit env returns = Inr ap
              \<and> garch_fit env returns = Inr (gp, vols) \<and> vols \<noteq> []))
   \<and> (fully_populated (fst (try_fit env returns)) \<longrightarrow>
        fitted_model (PDict (fst (try_fit env returns)))
        \<and> dict_get (fst (try_fit env returns)) ''success'' = PBool True)
   \<and> (\<not> fully_populated (fst (try_fit env returns)) \<longrightarrow>
        (\<exists>m. fst (try_fit env returns) = [(''error'', PStr m), (''success'', PBool False)]))"
proof -
  have numeric: "fitted_model metrics \<longrightarrow>
      (\<exists>a m v. resolve_metrics metrics = Inr (PFloat a, PFloat m, PFloat v))"
    using resolve_metrics_numeric by blast
  have absent: "fitted_model (PDict d) \<and> map_of d ''ar_coeff'' = None \<and> map_of d ''ma_coeff'' = None
        \<and> map_of d ''garch_volatility'' = None \<and> map_of d ''arma'' = None
        \<and> map_of d ''garch'' = None \<longrightarrow>
      resolve_metrics (PDict d) = Inr (PFloat (Num 0), PFloat (Num 0), PFloat (Num 0))"
    by (auto simp: resolve_metrics_fitted ar_candidates_def ma_candidates_def
        volatility_candidates_def nested_absent)
  have no_keys: "resolve_metrics (PDict []) = Inr (PFloat (Num 0), PFloat (Num 0), PFloat (Num 0))"
    by (simp add: resolve_metrics_def py_or_def is_dict_def)
  have defaults:
    "(ap ''ar.L1'' = None \<longrightarrow> dict_get (flattened_results ap gp x) ''ar_coeff'' = PFloat (Num 0))
     \<and> (ap ''ma.L1'' = None \<longrightarrow> dict_get (flattened_results ap gp x) ''ma_coeff'' = PFloat (Num 0))
     \<and> (ap ''const'' = None \<longrightarrow> dict_get (flattened_results ap gp x) ''const'' = PFloat (Num 0))
     \<and> (gp ''omega'' = None \<longrightarrow> dict_get (flattened_results ap gp x) ''omega'' = PFloat (Num 0))
     \<and> (gp ''alpha[1]'' = None \<and> gp ''alpha'' = None \<longrightarrow>
          dict_get (flattened_results ap gp x) ''alpha'' = PFloat (Num 0))
     \<and> (gp ''beta[1]'' = None \<and> gp ''beta'' = None \<longrightarrow>
          dict_get (flattened_results ap gp x) ''beta'' = PFloat (Num 0))" for x
    by (simp add: flattened_results_def dict_get_def params_get_def)
  have populated: "vols \<noteq> [] \<longrightarrow>
        (\<exists>r. populate_garch (populate_arma initial_results ap) gp vols = Inr r
             \<and> fully_populated r \<and> fitted_model (PDict r)
             \<and> (ap ''ar.L1'' = None \<longrightarrow> dict_get r ''ar_coeff'' = PFloat (Num 0))
             \<and> (ap ''ma.L1'' = None \<longrightarrow> dict_get r ''ma_coeff'' = PFloat (Num 0))
             \<and> (ap ''const'' = None \<longrightarrow> dict_get r ''const'' = PFloat (Num 0))
             \<and> (gp ''omega'' = None \<longrightarrow> dict_get r ''omega'' = PFloat (Num 0))
             \<and> (gp ''alpha[1]'' = None \<and> gp ''alpha'' = None \<longrightarrow>
                  dict_get r ''alpha'' = PFloat (Num 0))
             \<and> (gp ''beta[1]'' = None \<and> gp ''beta'' = None \<longrightarrow>
                  dict_get r ''beta'' = PFloat (Num 0)))"
    using defaults [of "last vols"] fully_populated_flattened_results [of ap gp "last vols"]
      fitted_model_flattened_results [of ap gp "last vols"]
    by (simp add: populate_eq)
  have raises: "vols = [] \<longrightarrow>
        populate_garch (populate_arma initial_results ap) gp vols =
          Inl (IndexError ''single positional indexer is out-of-bounds'')"
    by (simp add: populate_eq)
  have no_coeffs: "populate_garch (populate_arma initial_results Map.empty) Map.empty [v] =
       Inr [(''success'', PBool True), (''ar_coeff'', PFloat (Num 0)),
            (''ma_coeff'', PFloat (Num 0)), (''const'', PFloat (Num 0)),
            (''omega'', PFloat (Num 0)), (''alpha'', PFloat (Num 0)),
            (''beta'', PFloat (Num 0)), (''garch_volatility'', PFloat v)]"
    using populate_eq [of "\<lambda>k. None" "\<lambda>k. None" "[v]"]
    by (simp add: flattened_results_def params_get_def)
  have cases: "(\<exists>m. fst (try_fit env returns) = failure m
                  \<and> \<not> (10 \<le> length returns
                        \<and> (\<exists>ap gp vols. arima_fit env returns = Inr ap
                              \<and> garch_fit env returns = Inr (gp, vols) \<and> vols \<noteq> [])))
               \<or> (\<exists>ap gp x. fst (try_fit env returns) = flattened_results ap gp x
                    \<and> 10 \<le> length returns
                    \<and> (\<exists>ap gp vols. arima_fit env returns = Inr ap
                              \<and> garch_fit env returns = Inr (gp, vols) \<and> vols \<noteq> []))"
    by (auto simp: try_fit_eq split: sum.splits prod.splits)
  have iff: "fully_populated (fst (try_fit env returns)) \<longleftrightarrow>
        10 \<le> length returns
        \<and> (\<exists>ap gp vols. arima_fit env returns = Inr ap
              \<and> garch_fit env returns = Inr (gp, vols) \<and> vols \<noteq> [])"
    using cases not_populated_failure fully_populated_flattened_results by metis
  have good: "fully_populated (fst (try_fit env returns)) \<longrightarrow>
        fitted_model (PDict (fst (try_fit env returns)))
        \<and> dict_get (fst (try_fit env returns)) ''success'' = PBool True"
    using cases not_populated_failure fitted_model_flattened_results success_flattened by metis
  have bad: "\<not> fully_populated (fst (try_fit env returns)) \<longrightarrow>
        (\<exists>m. fst (try_fit env returns) = [(''error'', PStr m), (''success'', PBool False)])"
    using cases fully_populated_flattened_results by (metis failure_def)
  from numeric absent no_keys populated raises no_coeffs iff good bad show ?thesis
    by blast
qed

theorem failure_or_seven_fields_witness:
  "fitted_model (PDict [(''success'', PBool True), (''ar_coeff'', PFloat (Num 0.5)),
                        (''garch'', PDict [(''last_volatility'', PFloat (Num 2))])])
   \<and> resolve_metrics (PDict [(''success'', PBool True), (''ar_coeff'', PFloat (Num 0.5)),
                        (''garch'', PDict [(''last_volatility'', PFloat (Num 2))])]) =
       Inr (PFloat (Num 0.5), PFloat (Num 0), PFloat (Num 2))
   \<and> resolve_metrics (PDict [(''success'', PBool True)]) =
       Inr (PFloat (Num 0), PFloat (Num 0), PFloat (Num 0))
   \<and> populate_garch (populate_arma initial_results [''ar.L1'' \<mapsto> Num 0.5])
         [''beta'' \<mapsto> Num 0.75] [Num 2, Num 3] =
       Inr [(''success'', PBool True), (''ar_coeff'', PFloat (Num 0.5)),
            (''ma_coeff'', PFloat (Num 0)), (''const'', PFloat (Num 0)),
            (''omega'', PFloat (Num 0)), (''alpha'', PFloat (Num 0)),
            (''beta'', PFloat (Num 0.75)), (''garch_volatility'', PFloat (Num 3))]
   \<and> populate_garch (populate_arma initial_results [''ar.L1'' \<mapsto> Num 0.5])
         [''beta'' \<mapsto> Num 0.75] [] =
       Inl (IndexError ''single positional indexer is out-of-bounds'')
   \<and> fully_populated
         (fst (try_fit example_env
                (log_returns [100, 101, 102, 103, 104, 105, 106, 107, 108, 109, 110])))
   \<and> dict_get (fst (try_fit example_env
                (log_returns [100, 101, 102, 103, 104, 105, 106, 107, 108, 109, 110])))
         ''success'' = PBool True
   \<and> \<not> fully_populated
         (fst (try_fit example_env
                (log_returns [20, 21, 22, 23, 24, 25, 26, 27, 28, 29, 30, 31])))
   \<and> fst (try_fit example_env
                (log_returns [20, 21, 22, 23, 24, 25, 26, 27, 28, 29, 30, 31])) =
       [(''error'', PStr ''LU decomposition error''), (''success'', PBool False)]"
proof -
  let ?m = "PDict [(''success'', PBool True), (''ar_coeff'', PFloat (Num 0.5)),
                   (''garch'', PDict [(''last_volatility'', PFloat (Num 2))])]"
  let ?good = "log_returns [100, 101, 102, 103, 104, 105, 106, 107, 108, 109, 110]"
  let ?bad = "log_returns [20, 21, 22, 23, 24, 25, 26, 27, 28, 29, 30, 31]"
  note T = failure_or_seven_fields [where metrics = ?m and d = "[(''success'', PBool True)]"
      and vols = "[Num 2, Num 3]" and ap = "[''ar.L1'' \<mapsto> Num 0.5]"
      and gp = "[''beta'' \<mapsto> Num 0.75]" and env = example_env and returns = ?good]
  note U = failure_or_seven_fields [where vols = "[]" and ap = "[''ar.L1'' \<mapsto> Num 0.5]"
      and gp = "[''beta'' \<mapsto> Num 0.75]" and env = example_env and returns = ?bad]
  note T1 = T [THEN conjunct1]
  note T2 = T [THEN conjunct2, THEN conjunct1]
  note T4 = T [THEN conjunct2, THEN conjunct2, THEN conjunct2, THEN conjunct1]
  note T7 = T [THEN conjunct2, THEN conjunct2, THEN conjunct2, THEN conjunct2, THEN conjunct2,
      THEN conjunct2, THEN conjunct1]
  note T8 = T [THEN conjunct2, THEN conjunct2, THEN conjunct2, THEN conjunct2, THEN conjunct2,
      THEN conjunct2, THEN conjunct2, THEN conjunct1]
  note U5 = U [THEN conjunct2, THEN conjunct2, THEN conjunct2, THEN conjunct2, THEN conjunct1]
  note U7 = U [THEN conjunct2, THEN conjunct2, THEN conjunct2, THEN conjunct2, THEN conjunct2,
      THEN conjunct2, THEN conjunct1]
  note U9 = U [THEN conjunct2, THEN conjunct2, THEN conjunct2, THEN conjunct2, THEN conjunct2,
      THEN conjunct2, THEN conjunct2, THEN conjunct2]
  have f: "fitted_model ?m"
    by (simp add: fitted_model_def coefficient_map_def is_float_def is_bool_def)
  have f2: "fitted_model (PDict [(''success'', PBool True)])"
    by (simp add: fitted_model_def is_bool_def)
  from T1 f obtain a m v where r: "resolve_metrics ?m = Inr (PFloat a, PFloat m, PFloat v)"
    by blast
  have r1: "resolve_metrics ?m = Inr (PFloat (Num 0.5), PFloat (Num 0), PFloat (Num 2))"
    using r by (simp add: resolve_metrics_def py_or_def is_dict_def)
  from T2 f2 have r2: "resolve_metrics (PDict [(''success'', PBool True)]) =
       Inr (PFloat (Num 0), PFloat (Num 0), PFloat (Num 0))"
    by simp
  from T4 obtain r where p: "populate_garch (populate_arma initial_results [''ar.L1'' \<mapsto> Num 0.5])
         [''beta'' \<mapsto> Num 0.75] [Num 2, Num 3] = Inr r"
    by blast
  have p1: "populate_garch (populate_arma initial_results [''ar.L1'' \<mapsto> Num 0.5])
         [''beta'' \<mapsto> Num 0.75] [Num 2, Num 3] =
       Inr [(''success'', PBool True), (''ar_coeff'', PFloat (Num 0.5)),
            (''ma_coeff'', PFloat (Num 0)), (''const'', PFloat (Num 0)),
            (''omega'', PFloat (Num 0)), (''alpha'', PFloat (Num 0)),
            (''beta'', PFloat (Num 0.75)), (''garch_volatility'', PFloat (Num 3))]"
    using p by (simp add: populate_eq flattened_results_def params_get_def)
  from U5 have p2: "populate_garch (populate_arma initial_results [''ar.L1'' \<mapsto> Num 0.5])
         [''beta'' \<mapsto> Num 0.75] [] =
       Inl (IndexError ''single positional indexer is out-of-bounds'')"
    by blast
  have ok: "10 \<le> length ?good
        \<and> (\<exists>ap gp vols. arima_fit example_env ?good = Inr ap
              \<and> garch_fit example_env ?good = Inr (gp, vols) \<and> vols \<noteq> [])"
    by (simp add: example_estimators example_lengths)
  have g1: "fully_populated (fst (try_fit example_env ?good))"
    using ok by (rule T7 [THEN iffD2])
  have g2: "dict_get (fst (try_fit example_env ?good)) ''success'' = PBool True"
    using T8 [rule_format, OF g1] by (rule conjunct2)
  have ko: "\<not> (10 \<le> length ?bad
        \<and> (\<exists>ap gp vols. arima_fit example_env ?bad = Inr ap
              \<and> garch_fit example_env ?bad = Inr (gp, vols) \<and> vols \<noteq> []))"
    by (simp add: example_estimators example_lengths)
  have b1: "\<not> fully_populated (fst (try_fit example_env ?bad))"
    using ko U7 by blast
  from U9 [rule_format, OF b1] obtain msg where
    "fst (try_fit example_env ?bad) = [(''error'', PStr msg), (''success'', PBool False)]"
    by blast
  then have b2: "fst (try_fit example_env ?bad) =
       [(''error'', PStr ''LU decomposition error''), (''success'', PBool False)]"
    by (simp add: try_fit_eq example_estimators example_lengths failure_def)
  from f r1 r2 p1 p2 g1 g2 b1 b2 show ?thesis
    by (intro conjI)
qed

section \<open>The order in which a field is resolved\<close>

text \<open>
  C3. For every well-typed FittedModel, each of the three fields that
  \<^verbatim>\<open>save_model_results\<close> reads is the first candidate, in the order flattened key,
  first nested key, second nested key, that is present and truthy (a float other than
  0.0), and 0.0 when there is none: a key that is present with the value 0.0 is passed
  over like an absent one. The fields alpha and beta of the Model Fitter's result are read
  by presence: the value under "alpha[1]" when that key is there, else the value under
  "alpha" when that key is there, else 0.0, and likewise for beta.
\<close>

theorem cascade_takes_first_truthy:
  "(fitted_model (PDict d) \<longrightarrow>
      resolve_metrics (PDict d) =
        Inr (first_truthy (ar_candidates d), first_truthy (ma_candidates d),
             first_truthy (volatility_candidates d)))
   \<and> (populate_garch res gp vols = Inr r \<longrightarrow>
        dict_get r ''alpha'' =
           PFloat (case gp ''alpha[1]'' of Some x \<Rightarrow> x
                   | None \<Rightarrow> (case gp ''alpha'' of Some x \<Rightarrow> x | None \<Rightarrow> Num 0))
        \<and> dict_get r ''beta'' =
           PFloat (case gp ''beta[1]'' of Some x \<Rightarrow> x
                   | None \<Rightarrow> (case gp ''beta'' of Some x \<Rightarrow> x | None \<Rightarrow> Num 0)))"
  using resolve_metrics_fitted populate_garch_alpha_beta by blast

theorem cascade_takes_first_truthy_witness:
  "fitted_model (PDict [(''success'', PBool True), (''ar_coeff'', PFloat (Num 0)),
                        (''arma'', PDict [(''ar_coef'', PFloat (Num 0)), (''ar_coeff'', PFloat (Num 0.5)),
                                          (''ma_coef'', PFloat (Num 0.25))]),
                        (''garch'', PDict [(''garch_volatility'', PFloat (Num 2))])])
   \<and> resolve_metrics (PDict [(''success'', PBool True), (''ar_coeff'', PFloat (Num 0)),
                        (''arma'', PDict [(''ar_coef'', PFloat (Num 0)), (''ar_coeff'', PFloat (Num 0.5)),
                                          (''ma_coef'', PFloat (Num 0.25))]),
                        (''garch'', PDict [(''garch_volatility'', PFloat (Num 2))])])
       = Inr (PFloat (Num 0.5), PFloat (Num 0.25), PFloat (Num 2))
   \<and> populate_garch initial_results [''alpha[1]'' \<mapsto> Num 0, ''alpha'' \<mapsto> Num 0.125, ''beta'' \<mapsto> Num 0.75] [Num 3]
       = Inr [(''success'', PBool True), (''ar_coeff'', PFloat (Num 0)), (''ma_coeff'', PFloat (Num 0)),
              (''const'', PFloat (Num 0)), (''omega'', PFloat (Num 0)), (''alpha'', PFloat (Num 0)),
              (''beta'', PFloat (Num 0.75)), (''garch_volatility'', PFloat (Num 3))]
   \<and> dict_get [(''success'', PBool True), (''ar_coeff'', PFloat (Num 0)), (''ma_coeff'', PFloat (Num 0)),
              (''const'', PFloat (Num 0)), (''omega'', PFloat (Num 0)), (''alpha'', PFloat (Num 0)),
              (''beta'', PFloat (Num 0.75)), (''garch_volatility'', PFloat (Num 3))] ''alpha'' = PFloat (Num 0)"
proof -
  let ?d = "[(''success'', PBool True), (''ar_coeff'', PFloat (Num 0)),
                        (''arma'', PDict [(''ar_coef'', PFloat (Num 0)), (''ar_coeff'', PFloat (Num 0.5)),
                                          (''ma_coef'', PFloat (Num 0.25))]),
                        (''garch'', PDict [(''garch_volatility'', PFloat (Num 2))])]"
  let ?gp = "[''alpha[1]'' \<mapsto> Num 0, ''alpha'' \<mapsto> Num 0.125, ''beta'' \<mapsto> Num 0.75]"
  let ?r = "[(''success'', PBool True), (''ar_coeff'', PFloat (Num 0)), (''ma_coeff'', PFloat (Num 0)),
              (''const'', PFloat (Num 0)), (''omega'', PFloat (Num 0)), (''alpha'', PFloat (Num 0)),
              (''beta'', PFloat (Num 0.75)), (''garch_volatility'', PFloat (Num 3))]"
  have f: "fitted_model (PDict ?d)"
    by (simp add: fitted_model_def coefficient_map_def is_float_def is_bool_def)
  have p: "populate_garch initial_results ?gp [Num 3] = Inr ?r"
    by (simp add: populate_garch_def initial_results_def iloc_last_def params_get_def)
  note T = cascade_takes_first_truthy [where d = ?d and res = initial_results and gp = ?gp
      and vols = "[Num 3]" and r = ?r]
  from T f have "resolve_metrics (PDict ?d) =
        Inr (first_truthy (ar_candidates ?d), first_truthy (ma_candidates ?d),
             first_truthy (volatility_candidates ?d))"
    by blast
  then have res: "resolve_metrics (PDict ?d) = Inr (PFloat (Num 0.5), PFloat (Num 0.25), PFloat (Num 2))"
    by (simp add: ar_candidates_def ma_candidates_def volatility_candidates_def nested_def)
  from T p have "dict_get ?r ''alpha'' = PFloat (case ?gp ''alpha[1]'' of Some x \<Rightarrow> x
                   | None \<Rightarrow> (case ?gp ''alpha'' of Some x \<Rightarrow> x | None \<Rightarrow> Num 0))"
    by blast
  then have al: "dict_get ?r ''alpha'' = PFloat (Num 0)"
    by simp
  from f res p al show ?thesis by blast
qed

text \<open>
  With "first match wins" read as "the first key that is present wins" the statement
  fails: a flattened "ar\_coeff" of 0.0 is present, yet the nested value 0.7 is stored.
\<close>

theorem zero_flattened_value_does_not_win:
  "fitted_model (PDict [(''ar_coeff'', PFloat (Num 0)), (''arma'', PDict [(''ar_coef'', PFloat (Num 0.7))])])
   \<and> resolve_metrics (PDict [(''ar_coeff'', PFloat (Num 0)), (''arma'', PDict [(''ar_coef'', PFloat (Num 0.7))])])
       = Inr (PFloat (Num 0.7), PFloat (Num 0), PFloat (Num 0))
   \<and> first_match_metrics [(''ar_coeff'', PFloat (Num 0)), (''arma'', PDict [(''ar_coef'', PFloat (Num 0.7))])]
       = (PFloat (Num 0), PFloat (Num 0), PFloat (Num 0))
   \<and> resolve_metrics (PDict [(''ar_coeff'', PFloat (Num 0)), (''arma'', PDict [(''ar_coef'', PFloat (Num 0.7))])])
       \<noteq> Inr (first_match_metrics
                [(''ar_coeff'', PFloat (Num 0)), (''arma'', PDict [(''ar_coef'', PFloat (Num 0.7))])])"
  by (simp add: fitted_model_def coefficient_map_def is_float_def resolve_metrics_def py_or_def
      is_dict_def first_match_metrics_def ar_candidates_def ma_candidates_def
      volatility_candidates_def nested_def)

section \<open>Nested and flattened inputs\<close>

lemma map_of_as: "map_of (map (\<lambda>(k, x). (k, PFloat x)) cs) k = map_option PFloat (map_of cs k)"
  by (induction cs) auto

lemma resolve_nested_form:
  "resolve_metrics (nested_form arma garch) =
     Inr (first_truthy [None, map_option PFloat (map_of arma ''ar_coef''),
                        map_option PFloat (map_of arma ''ar_coeff'')],
          first_truthy [None, map_option PFloat (map_of arma ''ma_coef''),
                        map_option PFloat (map_of arma ''ma_coeff'')],
          first_truthy [None, map_option PFloat (map_of garch ''last_volatility''),
                        map_option PFloat (map_of garch ''garch_volatility'')])"
proof -
  have f: "fitted_model (nested_form arma garch)"
    by (simp add: fitted_model_def nested_form_def as_pydict_def coefficient_map_def
        list_all_iff is_float_def split_beta)
  show ?thesis
    using resolve_metrics_fitted [OF f [unfolded nested_form_def]]
    by (simp add: nested_form_def ar_candidates_def ma_candidates_def volatility_candidates_def
        nested_def as_pydict_def map_of_as)
qed

lemma first_truthy_carried:
  "first_truthy [None, map_option PFloat (map_of cs k1), map_option PFloat (map_of cs k2)] =
   first_truthy [map_option PFloat (carried cs k1 k2), None, None]
   \<longleftrightarrow> \<not> zero_shadows cs k1 k2"
  by (cases "map_of cs k1"; cases "map_of cs k2") (auto simp: zero_shadows_def carried_def)

lemma map_of_flat_entries:
  "map_of (flat_entry ''ar_coeff'' a @ flat_entry ''ma_coeff'' m
           @ flat_entry ''garch_volatility'' v) k =
     (if k = ''ar_coeff'' then map_option PFloat a
      else if k = ''ma_coeff'' then map_option PFloat m
      else if k = ''garch_volatility'' then map_option PFloat v
      else None)"
  by (cases a; cases m; cases v) (simp_all add: flat_entry_def)

lemma resolve_flattened_form:
  "resolve_metrics (flattened_form arma garch) =
     Inr (first_truthy [map_option PFloat (carried arma ''ar_coef'' ''ar_coeff''), None, None],
          first_truthy [map_option PFloat (carried arma ''ma_coef'' ''ma_coeff''), None, None],
          first_truthy [map_option PFloat (carried garch ''last_volatility'' ''garch_volatility''),
                        None, None])"
proof -
  have f: "fitted_model (flattened_form arma garch)"
    by (simp add: fitted_model_def flattened_form_def flat_entry_def is_float_def
        split: option.splits)
  show ?thesis
    using resolve_metrics_fitted [OF f [unfolded flattened_form_def]]
    by (simp add: flattened_form_def ar_candidates_def ma_candidates_def
        volatility_candidates_def nested_def map_of_flat_entries del: map_of_append)
qed

text \<open>
  C4. The two forms do not always resolve to the same values. The cascade is an
  \<^verbatim>\<open>or\<close>-chain, which passes over a key that holds 0.0: the nested input
  \<^verbatim>\<open>{"arma": {"ar_coef": 0.0, "ar_coeff": 0.9}, "garch": {}}\<close> resolves \<^verbatim>\<open>ar_coeff\<close> to
  0.9, the value under the second nested name, while the flattened input that carries the
  value of the first name, \<^verbatim>\<open>{"ar_coeff": 0.0}\<close>, resolves it to 0.0.
\<close>

theorem zero_under_first_nested_name_breaks_equivalence:
  "nested_form [(''ar_coef'', Num 0), (''ar_coeff'', Num 0.9)] [] =
     PDict [(''arma'', PDict [(''ar_coef'', PFloat (Num 0)), (''ar_coeff'', PFloat (Num 0.9))]),
            (''garch'', PDict [])]
   \<and> flattened_form [(''ar_coef'', Num 0), (''ar_coeff'', Num 0.9)] [] =
       PDict [(''ar_coeff'', PFloat (Num 0))]
   \<and> resolve_metrics
         (PDict [(''arma'', PDict [(''ar_coef'', PFloat (Num 0)), (''ar_coeff'', PFloat (Num 0.9))]),
                 (''garch'', PDict [])]) =
       Inr (PFloat (Num 0.9), PFloat (Num 0), PFloat (Num 0))
   \<and> resolve_metrics (PDict [(''ar_coeff'', PFloat (Num 0))]) =
       Inr (PFloat (Num 0), PFloat (Num 0), PFloat (Num 0))
   \<and> resolve_metrics (nested_form [(''ar_coef'', Num 0), (''ar_coeff'', Num 0.9)] []) \<noteq>
       resolve_metrics (flattened_form [(''ar_coef'', Num 0), (''ar_coeff'', Num 0.9)] [])"
proof -
  have ne: "nested_form [(''ar_coef'', Num 0), (''ar_coeff'', Num 0.9)] [] =
     PDict [(''arma'', PDict [(''ar_coef'', PFloat (Num 0)), (''ar_coeff'', PFloat (Num 0.9))]),
            (''garch'', PDict [])]"
    by (simp add: nested_form_def as_pydict_def)
  have fl: "flattened_form [(''ar_coef'', Num 0), (''ar_coeff'', Num 0.9)] [] =
       PDict [(''ar_coeff'', PFloat (Num 0))]"
    by (simp add: flattened_form_def flat_entry_def carried_def)
  have rn: "resolve_metrics
         (PDict [(''arma'', PDict [(''ar_coef'', PFloat (Num 0)), (''ar_coeff'', PFloat (Num 0.9))]),
                 (''garch'', PDict [])]) =
       Inr (PFloat (Num 0.9), PFloat (Num 0), PFloat (Num 0))"
    by (simp add: resolve_metrics_def py_or_def is_dict_def dict_get_def)
  have rf: "resolve_metrics (PDict [(''ar_coeff'', PFloat (Num 0))]) =
       Inr (PFloat (Num 0), PFloat (Num 0), PFloat (Num 0))"
    by (simp add: resolve_metrics_def py_or_def is_dict_def dict_get_def)
  have "resolve_metrics (nested_form [(''ar_coef'', Num 0), (''ar_coeff'', Num 0.9)] []) \<noteq>
       resolve_metrics (flattened_form [(''ar_coef'', Num 0), (''ar_coeff'', Num 0.9)] [])"
    unfolding ne fl rn rf by simp
  with ne fl rn rf show ?thesis
    by (intro conjI)
qed

text \<open>
  C4, amended. For every input that gives its coefficients only in nested form, under the
  sub-mappings "arma" and "garch", \<^verbatim>\<open>save_model_results\<close> resolves the same three
  values as for the input that carries those values under the flattened keys exactly when
  no sub-mapping holds 0.0 under the first nested name of a field (\<^verbatim>\<open>ar_coef\<close>,
  \<^verbatim>\<open>ma_coef\<close>, \<^verbatim>\<open>last_volatility\<close>) and another value under the second
  (\<^verbatim>\<open>ar_coeff\<close>, \<^verbatim>\<open>ma_coeff\<close>, \<^verbatim>\<open>garch_volatility\<close>); it then inserts the same row
  and logs the same lines. When a sub-mapping does, the nested input resolves the field to
  the value under the second name and the flattened input resolves it to 0.0.
\<close>

theorem nested_equals_flattened_unless_zero_shadows:
  "(resolve_metrics (nested_form arma garch) = resolve_metrics (flattened_form arma garch)
      \<longleftrightarrow> \<not> zero_shadows arma ''ar_coef'' ''ar_coeff''
          \<and> \<not> zero_shadows arma ''ma_coef'' ''ma_coeff''
          \<and> \<not> zero_shadows garch ''last_volatility'' ''garch_volatility'')
   \<and> (\<not> zero_shadows arma ''ar_coef'' ''ar_coeff''
        \<and> \<not> zero_shadows arma ''ma_coef'' ''ma_coeff''
        \<and> \<not> zero_shadows garch ''last_volatility'' ''garch_volatility'' \<longrightarrow>
        save_model_results env s (nested_form arma garch) =
          save_model_results env s (flattened_form arma garch))
   \<and> (zero_shadows arma ''ar_coef'' ''ar_coeff'' \<longrightarrow>
        (\<exists>x m v. x \<noteq> Num 0 \<and> map_of arma ''ar_coeff'' = Some x
           \<and> resolve_metrics (nested_form arma garch) = Inr (PFloat x, m, v))
        \<and> (\<exists>m v. resolve_metrics (flattened_form arma garch) = Inr (PFloat (Num 0), m, v)))"
proof -
  have eq: "resolve_metrics (nested_form arma garch) = resolve_metrics (flattened_form arma garch)
      \<longleftrightarrow> \<not> zero_shadows arma ''ar_coef'' ''ar_coeff''
          \<and> \<not> zero_shadows arma ''ma_coef'' ''ma_coeff''
          \<and> \<not> zero_shadows garch ''last_volatility'' ''garch_volatility''"
    unfolding resolve_nested_form resolve_flattened_form sum.inject prod.inject
      first_truthy_carried
    by (rule refl)
  have save: "\<not> zero_shadows arma ''ar_coef'' ''ar_coeff''
        \<and> \<not> zero_shadows arma ''ma_coef'' ''ma_coeff''
        \<and> \<not> zero_shadows garch ''last_volatility'' ''garch_volatility'' \<longrightarrow>
        save_model_results env s (nested_form arma garch) =
          save_model_results env s (flattened_form arma garch)"
  proof
    assume "\<not> zero_shadows arma ''ar_coef'' ''ar_coeff''
        \<and> \<not> zero_shadows arma ''ma_coef'' ''ma_coeff''
        \<and> \<not> zero_shadows garch ''last_volatility'' ''garch_volatility''"
    with eq have e: "resolve_metrics (nested_form arma garch) =
        resolve_metrics (flattened_form arma garch)"
      by (rule iffD2)
    show "save_model_results env s (nested_form arma garch) =
          save_model_results env s (flattened_form arma garch)"
      unfolding save_model_results_def e by (rule refl)
  qed
  have differ: "zero_shadows arma ''ar_coef'' ''ar_coeff'' \<longrightarrow>
        (\<exists>x m v. x \<noteq> Num 0 \<and> map_of arma ''ar_coeff'' = Some x
           \<and> resolve_metrics (nested_form arma garch) = Inr (PFloat x, m, v))
        \<and> (\<exists>m v. resolve_metrics (flattened_form arma garch) = Inr (PFloat (Num 0), m, v))"
    unfolding resolve_nested_form resolve_flattened_form
    by (auto simp: zero_shadows_def carried_def)
  from eq save differ show ?thesis
    by (intro conjI)
qed

theorem nested_equals_flattened_unless_zero_shadows_witness:
  "\<not> zero_shadows [(''ar_coef'', Num 0.5), (''ar_coeff'', Num 0.5), (''ma_coeff'', Num 0.25)]
        ''ar_coef'' ''ar_coeff''
   \<and> flattened_form [(''ar_coef'', Num 0.5), (''ar_coeff'', Num 0.5), (''ma_coeff'', Num 0.25)]
         [(''last_volatility'', Num 2), (''garch_volatility'', Num 3)] =
       PDict [(''ar_coeff'', PFloat (Num 0.5)), (''ma_coeff'', PFloat (Num 0.25)),
              (''garch_volatility'', PFloat (Num 2))]
   \<and> resolve_metrics
         (PDict [(''arma'', PDict [(''ar_coef'', PFloat (Num 0.5)), (''ar_coeff'', PFloat (Num 0.5)),
                                   (''ma_coeff'', PFloat (Num 0.25))]),
                 (''garch'', PDict [(''last_volatility'', PFloat (Num 2)),
                                    (''garch_volatility'', PFloat (Num 3))])]) =
       resolve_metrics
         (PDict [(''ar_coeff'', PFloat (Num 0.5)), (''ma_coeff'', PFloat (Num 0.25)),
                 (''garch_volatility'', PFloat (Num 2))])
   \<and> save_model_results example_env ''AAPL''
         (PDict [(''arma'', PDict [(''ar_coef'', PFloat (Num 0.5)), (''ar_coeff'', PFloat (Num 0.5)),
                                   (''ma_coeff'', PFloat (Num 0.25))]),
                 (''garch'', PDict [(''last_volatility'', PFloat (Num 2)),
                                    (''garch_volatility'', PFloat (Num 3))])]) =
       save_model_results example_env ''AAPL''
         (PDict [(''ar_coeff'', PFloat (Num 0.5)), (''ma_coeff'', PFloat (Num 0.25)),
                 (''garch_volatility'', PFloat (Num 2))])
   \<and> zero_shadows [(''ar_coef'', Num 0), (''ar_coeff'', Num 0.9)] ''ar_coef'' ''ar_coeff''
   \<and> resolve_metrics (nested_form [(''ar_coef'', Num 0), (''ar_coeff'', Num 0.9)] []) \<noteq>
       resolve_metrics (flattened_form [(''ar_coef'', Num 0), (''ar_coeff'', Num 0.9)] [])"
proof -
  let ?a = "[(''ar_coef'', Num 0.5), (''ar_coeff'', Num 0.5), (''ma_coeff'', Num 0.25)]"
  let ?g = "[(''last_volatility'', Num 2), (''garch_volatility'', Num 3)]"
  let ?z = "[(''ar_coef'', Num 0), (''ar_coeff'', Num 0.9)]"
  note T = nested_equals_flattened_unless_zero_shadows
      [where arma = ?a and garch = ?g and env = example_env and s = "''AAPL''"]
  note Z = nested_equals_flattened_unless_zero_shadows [where arma = ?z and garch = "[]"]
  have h: "\<not> zero_shadows ?a ''ar_coef'' ''ar_coeff''
        \<and> \<not> zero_shadows ?a ''ma_coef'' ''ma_coeff''
        \<and> \<not> zero_shadows ?g ''last_volatility'' ''garch_volatility''"
    by (simp add: zero_shadows_def)
  have z: "zero_shadows ?z ''ar_coef'' ''ar_coeff''"
    by (simp add: zero_shadows_def)
  have fl: "flattened_form ?a ?g =
       PDict [(''ar_coeff'', PFloat (Num 0.5)), (''ma_coeff'', PFloat (Num 0.25)),
              (''garch_volatility'', PFloat (Num 2))]"
    by (simp add: flattened_form_def flat_entry_def carried_def)
  have ne: "nested_form ?a ?g =
      PDict [(''arma'', PDict [(''ar_coef'', PFloat (Num 0.5)), (''ar_coeff'', PFloat (Num 0.5)),
                               (''ma_coeff'', PFloat (Num 0.25))]),
             (''garch'', PDict [(''last_volatility'', PFloat (Num 2)),
                                (''garch_volatility'', PFloat (Num 3))])]"
    by (simp add: nested_form_def as_pydict_def)
  have r: "resolve_metrics (nested_form ?a ?g) = resolve_metrics (flattened_form ?a ?g)"
    using h by (rule T [THEN conjunct1, THEN iffD2])
  have sv: "save_model_results example_env ''AAPL'' (nested_form ?a ?g) =
      save_model_results example_env ''AAPL'' (flattened_form ?a ?g)"
    using h by (rule T [THEN conjunct2, THEN conjunct1, rule_format])
  have d: "resolve_metrics (nested_form ?z []) \<noteq> resolve_metrics (flattened_form ?z [])"
    using z Z [THEN conjunct1] by blast
  from h have h1: "\<not> zero_shadows ?a ''ar_coef'' ''ar_coeff''"
    by (rule conjunct1)
  from h1 fl r [unfolded ne fl] sv [unfolded ne fl] z d show ?thesis
    by (intro conjI)
qed

section \<open>A return series that is too short\<close>

text \<open>
  C5. For every symbol whose prices pass the price-count gate (at least ten) and whose
  return series, as the return computation gives it, has fewer than ten observations, no
  estimator is called and nothing is appended, in either mode; the Model Fitter's own
  length check answers with the failure "Not enough return observations to train models",
  and the loop logs that at error level as a failed training of the symbol, not as a skip.
  On numbers a return series is at least one shorter than the price series
  (\<open>length_log_returns_le\<close>), so ten numeric prices are always such a case.
\<close>

theorem short_return_series_is_training_failure:
  assumes "price_query env s = Inr prices" "10 \<le> length prices"
    and "returns_of env prices = Inr returns" "length returns < 10"
  shows "sync_body env s =
           (Inr None, [PriceQuery s,
                   Log ERROR (TrainingFailed s
                     (PStr ''Not enough return observations to train models''))])
    \<and> batch_body env s =
           (Inr None, [PriceQuery s,
                   Log ERROR (TrainingFailed s
                     (PStr ''Not enough return observations to train models''))])"
proof -
  have f: "fetch_price_history env s = (prices, [PriceQuery s])"
    using assms(1) by (simp add: fetch_price_history_def)
  have t: "train_and_extract_params env prices =
      (Inr (failure ''Not enough return observations to train models''), [])"
    using assms(3,4) by (simp add: train_and_extract_params_eq try_fit_eq)
  have p: "prices \<noteq> []" "\<not> length prices < 10"
    using assms(2) by auto
  show ?thesis
    by (simp add: sync_body_def batch_body_def f t p)
qed

theorem short_return_series_is_training_failure_witness:
  "price_query example_env ''TEN'' = Inr (map Number [1, 2, 3, 4, 5, 6, 7, 8, 9, 10])
   \<and> returns_of example_env (map Number [1, 2, 3, 4, 5, 6, 7, 8, 9, 10]) =
       Inr (log_returns [1, 2, 3, 4, 5, 6, 7, 8, 9, 10])
   \<and> length (log_returns [1, 2, 3, 4, 5, 6, 7, 8, 9, 10]) = 9
   \<and> sync_body example_env ''TEN'' =
       (Inr None, [PriceQuery ''TEN'',
               Log ERROR (TrainingFailed ''TEN''
                 (PStr ''Not enough return observations to train models''))])
   \<and> batch_body example_env ''TEN'' =
       (Inr None, [PriceQuery ''TEN'',
               Log ERROR (TrainingFailed ''TEN''
                 (PStr ''Not enough return observations to train models''))])"
proof -
  have q: "price_query example_env ''TEN'' = Inr (map Number [1, 2, 3, 4, 5, 6, 7, 8, 9, 10])"
    by (rule example_query)
  have l: "10 \<le> length (map Number [1, 2, 3, 4, 5, 6, 7, 8, 9, 10 :: real])"
    by simp
  have r: "returns_of example_env (map Number [1, 2, 3, 4, 5, 6, 7, 8, 9, 10]) =
       Inr (log_returns [1, 2, 3, 4, 5, 6, 7, 8, 9, 10])"
    by (rule returns_of_numbers)
  have n: "length (log_returns [1, 2, 3, 4, 5, 6, 7, 8, 9, 10]) < 10"
    by (simp add: example_lengths)
  from q r example_lengths(4) short_return_series_is_training_failure [OF q l r n]
  show ?thesis by blast
qed

text \<open>
  The statement with "skipped" in place of "training failure" fails: ten prices pass the
  price-count gate, give nine returns, and both modes log the symbol at error level as a
  failed training; no warning about skipping is logged.
\<close>

theorem ten_prices_logged_as_training_failure:
  "snd (process_batch_logic example_env [''TEN'']) =
     [PriceQuery ''TEN'',
      Log ERROR (TrainingFailed ''TEN'' (PStr ''Not enough return observations to train models'')),
      Log INFO (BatchComplete 0)]
   \<and> snd (process_batch_logic_sync example_env [''TEN'']) =
     [PriceQuery ''TEN'',
      Log ERROR (TrainingFailed ''TEN'' (PStr ''Not enough return observations to train models'')),
      Log INFO (BatchComplete 0)]
   \<and> fst (fetch_price_history example_env ''TEN'') = map Number [1, 2, 3, 4, 5, 6, 7, 8, 9, 10]
   \<and> returns_of example_env (fst (fetch_price_history example_env ''TEN'')) =
       Inr (log_returns [1, 2, 3, 4, 5, 6, 7, 8, 9, 10])
   \<and> length (log_returns [1, 2, 3, 4, 5, 6, 7, 8, 9, 10]) = 9"
  by (simp add: process_batch_logic_def process_batch_logic_sync_def batch_body_def sync_body_def
      fetch_price_history_def example_query train_and_extract_params_eq try_fit_eq
      example_lengths del: list.map)

section \<open>The price-count gate\<close>

text \<open>
  C6. For every symbol for which \<^verbatim>\<open>fetch_price_history\<close> gives fewer than ten prices
  (none included), the loop body of either mode appends nothing and logs one warning after
  the fetch, and its trace holds no call of an estimator. Whatever the batch, the
  list that the synchronous batch returns has no record of the symbol, the background
  summary has no entry for it, and the background trace has no insert of a row for it.
\<close>

theorem short_price_series_excluded:
  assumes "length (fst (fetch_price_history env s)) < 10"
  shows "sync_body env s =
           (Inr None, snd (fetch_price_history env s) @ [Log WARNING (InsufficientPriceData s)])
    \<and> batch_body env s =
           (Inr None, snd (fetch_price_history env s) @
              [Log WARNING (if fst (fetch_price_history env s) = [] then NoPriceData s
                            else NotEnoughPricePoints s (length (fst (fetch_price_history env s))))])
    \<and> \<not> list_ex is_fit_call (snd (sync_body env s))
    \<and> \<not> list_ex is_fit_call (snd (batch_body env s))
    \<and> PStr s \<notin> set (map (\<lambda>r. dict_get r ''symbol'')
                      (returned (fst (process_batch_logic_sync env symbols))))
    \<and> [(s, PStr ''Success'')] \<notin> set (returned (fst (process_batch_logic env symbols)))
    \<and> \<not> list_ex (is_insert_for s) (snd (process_batch_logic env symbols))"
proof -
  have nofit: "\<not> list_ex is_fit_call (snd (fetch_price_history env s))"
    by (simp add: fetch_price_history_def is_fit_call_def split: sum.splits)
  have sb: "sync_body env s =
           (Inr None, snd (fetch_price_history env s) @ [Log WARNING (InsufficientPriceData s)])"
    using assms by (auto simp: sync_body_def Let_def case_prod_beta)
  have bb: "batch_body env s =
           (Inr None, snd (fetch_price_history env s) @
              [Log WARNING (if fst (fetch_price_history env s) = [] then NoPriceData s
                            else NotEnoughPricePoints s (length (fst (fetch_price_history env s))))])"
    using assms by (auto simp: batch_body_def Let_def case_prod_beta)
  have ns: "\<not> fit_succeeded env s"
    using assms by (rule short_not_succeeded)
  have out1:
    "PStr s \<notin> set (map (\<lambda>r. dict_get r ''symbol'')
                     (returned (fst (process_batch_logic_sync env symbols))))"
    using ns
    by (cases "first_uncaught env symbols")
       (auto simp: fst_process_batch_logic_sync returned_def symbol_of_tagged)
  have out2: "[(s, PStr ''Success'')] \<notin> set (returned (fst (process_batch_logic env symbols)))"
    using ns
    by (cases "first_uncaught env symbols") (auto simp: fst_process_batch_logic returned_def)
  have out3: "\<not> list_ex (is_insert_for s) (snd (process_batch_logic env symbols))"
  proof
    assume "list_ex (is_insert_for s) (snd (process_batch_logic env symbols))"
    then obtain e where e: "e \<in> set (snd (process_batch_logic env symbols))" "is_insert_for s e"
      by (auto simp: list_ex_iff)
    from e(2) have "e \<noteq> Log l m" for l m
      by (auto simp: is_insert_for_def)
    with e(1) have "e \<in> set (snd (batch_loop env symbols []))"
      by (auto simp: process_batch_logic_def split: prod.splits sum.splits)
    with set_snd_batch_loop [of env symbols "[]"]
    obtain s' where "s' \<in> set symbols" "e \<in> set (snd (batch_body env s'))"
      by auto
    with e(2) ns show False using insert_in_batch_body by blast
  qed
  have nf1: "\<not> list_ex is_fit_call (snd (sync_body env s))"
    using nofit by (simp add: sb is_fit_call_def)
  have nf2: "\<not> list_ex is_fit_call (snd (batch_body env s))"
    using nofit by (simp add: bb is_fit_call_def)
  from sb bb nf1 nf2 out1 out2 out3 show ?thesis by blast
qed

theorem short_price_series_excluded_witness:
  "length (fst (fetch_price_history example_env ''ZZZZ'')) < 10
   \<and> sync_body example_env ''ZZZZ'' =
       (Inr None, [PriceQuery ''ZZZZ'', Log WARNING (InsufficientPriceData ''ZZZZ'')])
   \<and> batch_body example_env ''ZZZZ'' =
       (Inr None, [PriceQuery ''ZZZZ'', Log WARNING (NotEnoughPricePoints ''ZZZZ'' 5)])
   \<and> PStr ''ZZZZ'' \<notin> set (map (\<lambda>r. dict_get r ''symbol'')
        (returned (fst (process_batch_logic_sync example_env [''AAPL'', ''ZZZZ'']))))"
proof -
  have f: "fetch_price_history example_env ''ZZZZ'' =
      (map Number [1, 2, 3, 4, 5], [PriceQuery ''ZZZZ''])"
    by (simp add: fetch_price_history_def example_query del: list.map)
  have h: "length (fst (fetch_price_history example_env ''ZZZZ'')) < 10"
    by (simp add: f)
  show ?thesis
    using h short_price_series_excluded [OF h, of "[''AAPL'', ''ZZZZ'']"]
    by (simp add: f)
qed

section \<open>Exceptions and the boundary of the synchronous batch\<close>

text \<open>
  C7. In \<^verbatim>\<open>train_and_extract_params\<close> the return series is computed (lines 17-18:
  \<^verbatim>\<open>pd.Series\<close>, \<^verbatim>\<open>shift\<close>, the division, \<^verbatim>\<open>np.log\<close>) before the \<^verbatim>\<open>try\<close> block
  opens, and neither loop wraps the call, so an exception of that computation leaves the
  batch and the endpoint. On a list of numbers the computation is the total function
  \<^verbatim>\<open>log_returns\<close>; on any other list its outcome is the parameter \<^verbatim>\<open>other_series\<close> of the
  environment. The claim as stated, for every symbol list, is therefore false: with the
  price column holding decimals the query returns a list on which the division raises, the
  exception ends the batch after the first symbol, the third symbol is never fetched, and
  the endpoint raises instead of answering.
\<close>

theorem decimal_prices_raise_out_of_sync_batch:
  "price_query example_env ''DEC'' = Inr (map Decimal [70, 71, 72, 73, 74, 75, 76, 77, 78, 79, 80])
   \<and> returns_of example_env (map Decimal [70, 71, 72, 73, 74, 75, 76, 77, 78, 79, 80]) =
       Inl (TypeError ''loop of ufunc does not support argument 0'')
   \<and> process_batch_logic_sync example_env [''AAPL'', ''DEC'', ''MSFT''] =
       (Inl (TypeError ''loop of ufunc does not support argument 0''),
        [PriceQuery ''AAPL'',
         ArimaFit (log_returns [100, 101, 102, 103, 104, 105, 106, 107, 108, 109, 110]),
         GarchFit (log_returns [100, 101, 102, 103, 104, 105, 106, 107, 108, 109, 110]),
         PriceQuery ''DEC''])
   \<and> fst (trigger_training_sync example_env [''AAPL'', ''DEC'', ''MSFT'']) =
       Inl (Unhandled (TypeError ''loop of ufunc does not support argument 0''))"
proof -
  have aapl: "sync_body example_env ''AAPL'' =
      (Inr (Some (AList.update ''symbol'' (PStr ''AAPL'') (model_result_of example_env ''AAPL''))),
       [PriceQuery ''AAPL'',
        ArimaFit (log_returns [100, 101, 102, 103, 104, 105, 106, 107, 108, 109, 110]),
        GarchFit (log_returns [100, 101, 102, 103, 104, 105, 106, 107, 108, 109, 110])])"
    by (simp add: sync_body_def fetch_price_history_def example_query model_result_of_def
        train_and_extract_params_eq try_fit_eq example_estimators example_lengths
        flattened_results_def dict_get_def del: list.map)
  have dec: "sync_body example_env ''DEC'' =
      (Inl (TypeError ''loop of ufunc does not support argument 0''), [PriceQuery ''DEC''])"
    by (simp add: sync_body_def fetch_price_history_def example_query
        train_and_extract_params_eq example_decimal del: list.map)
  have batch: "process_batch_logic_sync example_env [''AAPL'', ''DEC'', ''MSFT''] =
       (Inl (TypeError ''loop of ufunc does not support argument 0''),
        [PriceQuery ''AAPL'',
         ArimaFit (log_returns [100, 101, 102, 103, 104, 105, 106, 107, 108, 109, 110]),
         GarchFit (log_returns [100, 101, 102, 103, 104, 105, 106, 107, 108, 109, 110]),
         PriceQuery ''DEC''])"
    by (simp add: process_batch_logic_sync_def aapl dec)
  have "fst (trigger_training_sync example_env [''AAPL'', ''DEC'', ''MSFT'']) =
       Inl (Unhandled (TypeError ''loop of ufunc does not support argument 0''))"
    by (simp add: trigger_training_sync_def batch)
  with example_query(7) example_decimal batch show ?thesis
    by blast
qed

text \<open>
  C7, amended. For every symbol list whose fetched price lists hold only numbers, the
  synchronous batch returns a list of at most as many records as there are symbols, its
  trace is the traces of the symbols one after the other followed by the closing log line,
  and the endpoint answers a non-empty list with that result. For every symbol list, the
  batch raises exactly when the computation of the return series raises for one of the
  symbols that reach it, and then with the exception of the first such symbol. An
  exception of the price query is logged and the symbol skipped; an exception of either
  estimator is logged as a failed training of the symbol; in each case nothing is appended.
\<close>

theorem numeric_prices_sync_batch_never_raises:
  "(numeric_prices env symbols \<longrightarrow>
      (\<exists>ms. process_batch_logic_sync env symbols =
               (Inr ms,
                concat (map (\<lambda>s. snd (sync_body env s)) symbols)
                @ [Log INFO (BatchComplete (length ms))])
            \<and> length ms \<le> length symbols
            \<and> (symbols \<noteq> [] \<longrightarrow>
                 fst (trigger_training_sync env symbols) =
                   Inr \<lparr>status = ''Processing complete'', results = ms\<rparr>)))
   \<and> (fst (process_batch_logic_sync env symbols) = Inl e \<longleftrightarrow>
        first_uncaught env symbols = Some e)
   \<and> (price_query env s = Inl e \<longrightarrow>
        sync_body env s =
          (Inr None, [PriceQuery s, Log ERROR (ErrorFetching s e),
                      Log WARNING (InsufficientPriceData s)]))
   \<and> (price_query env s = Inr prices \<and> 10 \<le> length prices
        \<and> returns_of env prices = Inr returns \<and> 10 \<le> length returns
        \<and> arima_fit env returns = Inl e \<longrightarrow>
        sync_body env s =
          (Inr None, [PriceQuery s, ArimaFit returns,
                      Log ERROR (TrainingFailed s (PStr (str_exc e)))]))
   \<and> (price_query env s = Inr prices \<and> 10 \<le> length prices
        \<and> returns_of env prices = Inr returns \<and> 10 \<le> length returns
        \<and> arima_fit env returns = Inr ap \<and> garch_fit env returns = Inl e \<longrightarrow>
        sync_body env s =
          (Inr None, [PriceQuery s, ArimaFit returns, GarchFit returns,
                      Log ERROR (TrainingFailed s (PStr (str_exc e)))]))"
proof -
  have batch: "numeric_prices env symbols \<longrightarrow>
      (\<exists>ms. process_batch_logic_sync env symbols =
               (Inr ms,
                concat (map (\<lambda>s. snd (sync_body env s)) symbols)
                @ [Log INFO (BatchComplete (length ms))])
            \<and> length ms \<le> length symbols
            \<and> (symbols \<noteq> [] \<longrightarrow>
                 fst (trigger_training_sync env symbols) =
                   Inr \<lparr>status = ''Processing complete'', results = ms\<rparr>))"
  proof (intro impI)
    assume "numeric_prices env symbols"
    then have u: "first_uncaught env symbols = None"
      by (rule numeric_prices_uncaught)
    let ?ms = "map (\<lambda>s. AList.update ''symbol'' (PStr s) (model_result_of env s))
                 (filter (fit_succeeded env) symbols)"
    obtain r evs where l: "sync_loop env symbols [] = (r, evs)"
      by (cases "sync_loop env symbols []")
    from l fst_sync_loop [of env symbols "[]"] u have r: "r = Inr ?ms"
      by simp
    from l snd_sync_loop [OF u, of "[]"]
    have evs: "evs = concat (map (\<lambda>s. snd (sync_body env s)) symbols)"
      by simp
    have p: "process_batch_logic_sync env symbols =
        (Inr ?ms, concat (map (\<lambda>s. snd (sync_body env s)) symbols)
                  @ [Log INFO (BatchComplete (length ?ms))])"
      by (simp add: process_batch_logic_sync_def l r evs)
    moreover have "length ?ms \<le> length symbols"
      by simp
    moreover have "symbols \<noteq> [] \<longrightarrow>
        fst (trigger_training_sync env symbols) =
          Inr \<lparr>status = ''Processing complete'', results = ?ms\<rparr>"
      by (simp add: trigger_training_sync_def p)
    ultimately show "\<exists>ms. process_batch_logic_sync env symbols =
               (Inr ms,
                concat (map (\<lambda>s. snd (sync_body env s)) symbols)
                @ [Log INFO (BatchComplete (length ms))])
            \<and> length ms \<le> length symbols
            \<and> (symbols \<noteq> [] \<longrightarrow>
                 fst (trigger_training_sync env symbols) =
                   Inr \<lparr>status = ''Processing complete'', results = ms\<rparr>)"
      by blast
  qed
  have only: "fst (process_batch_logic_sync env symbols) = Inl e \<longleftrightarrow>
        first_uncaught env symbols = Some e"
    by (cases "first_uncaught env symbols") (simp_all add: fst_process_batch_logic_sync)
  have fetch: "price_query env s = Inl e \<longrightarrow>
        sync_body env s =
          (Inr None, [PriceQuery s, Log ERROR (ErrorFetching s e),
                      Log WARNING (InsufficientPriceData s)])"
    by (simp add: sync_body_def fetch_price_history_def)
  have arima: "price_query env s = Inr prices \<and> 10 \<le> length prices
        \<and> returns_of env prices = Inr returns \<and> 10 \<le> length returns
        \<and> arima_fit env returns = Inl e \<longrightarrow>
        sync_body env s =
          (Inr None, [PriceQuery s, ArimaFit returns,
                      Log ERROR (TrainingFailed s (PStr (str_exc e)))])"
    by (auto simp: sync_body_def fetch_price_history_def train_and_extract_params_eq try_fit_eq)
  have garch: "price_query env s = Inr prices \<and> 10 \<le> length prices
        \<and> returns_of env prices = Inr returns \<and> 10 \<le> length returns
        \<and> arima_fit env returns = Inr ap \<and> garch_fit env returns = Inl e \<longrightarrow>
        sync_body env s =
          (Inr None, [PriceQuery s, ArimaFit returns, GarchFit returns,
                      Log ERROR (TrainingFailed s (PStr (str_exc e)))])"
    by (auto simp: sync_body_def fetch_price_history_def train_and_extract_params_eq try_fit_eq)
  from batch only fetch arima garch show ?thesis by blast
qed

theorem numeric_prices_sync_batch_never_raises_witness:
  "numeric_prices example_env [''DOWN'', ''XYZ'', ''VOL'', ''AAPL'']
   \<and> fst (trigger_training_sync example_env [''DOWN'', ''XYZ'', ''VOL'', ''AAPL'']) =
     Inr \<lparr>status = ''Processing complete'',
          results = [AList.update ''symbol'' (PStr ''AAPL'') (model_result_of example_env ''AAPL'')]\<rparr>
   \<and> sync_body example_env ''DOWN'' =
       (Inr None, [PriceQuery ''DOWN'',
               Log ERROR (ErrorFetching ''DOWN'' (LibraryError ''connection refused'')),
               Log WARNING (InsufficientPriceData ''DOWN'')])
   \<and> sync_body example_env ''XYZ'' =
       (Inr None, [PriceQuery ''XYZ'',
               ArimaFit (log_returns [20, 21, 22, 23, 24, 25, 26, 27, 28, 29, 30, 31]),
               Log ERROR (TrainingFailed ''XYZ'' (PStr ''LU decomposition error''))])
   \<and> sync_body example_env ''VOL'' =
       (Inr None, [PriceQuery ''VOL'',
               ArimaFit (log_returns [30, 31, 32, 33, 34, 35, 36, 37, 38, 39, 40, 41, 42, 43]),
               GarchFit (log_returns [30, 31, 32, 33, 34, 35, 36, 37, 38, 39, 40, 41, 42, 43]),
               Log ERROR (TrainingFailed ''VOL'' (PStr ''optimizer did not converge''))])"
proof -
  let ?syms = "[''DOWN'', ''XYZ'', ''VOL'', ''AAPL'']"
  let ?xyz = "[20, 21, 22, 23, 24, 25, 26, 27, 28, 29, 30, 31] :: real list"
  let ?vol = "[30, 31, 32, 33, 34, 35, 36, 37, 38, 39, 40, 41, 42, 43] :: real list"
  have n: "numeric_prices example_env ?syms"
    by (simp add: example_numeric)
  have a: "arima_fit example_env (log_returns ?xyz) = Inl (LibraryError ''LU decomposition error'')"
    "arima_fit example_env (log_returns ?vol) = Inr [''ar.L1'' \<mapsto> Num 0.5, ''ma.L1'' \<mapsto> Num 0.25]"
    by (simp_all add: example_estimators example_lengths)
  have g: "garch_fit example_env (log_returns ?vol) = Inl (LibraryError ''optimizer did not converge'')"
    by (simp add: example_estimators example_lengths)
  have l: "10 \<le> length (map Number ?xyz)" "10 \<le> length (map Number ?vol)"
    "10 \<le> length (log_returns ?xyz)" "10 \<le> length (log_returns ?vol)"
    by (simp_all add: example_lengths)
  from numeric_prices_sync_batch_never_raises
         [where env = example_env and symbols = ?syms, THEN conjunct1, rule_format, OF n]
  obtain ms where ms: "fst (process_batch_logic_sync example_env ?syms) = Inr ms"
    "fst (trigger_training_sync example_env ?syms) =
       Inr \<lparr>status = ''Processing complete'', results = ms\<rparr>"
    by fastforce
  have "first_uncaught example_env ?syms = None"
    by (rule example_first_uncaught) simp
  with ms(1) have "ms = [AList.update ''symbol'' (PStr ''AAPL'') (model_result_of example_env ''AAPL'')]"
    by (simp add: fst_process_batch_logic_sync example_fit_succeeded)
  with ms(2) have res: "fst (trigger_training_sync example_env ?syms) =
     Inr \<lparr>status = ''Processing complete'',
          results = [AList.update ''symbol'' (PStr ''AAPL'') (model_result_of example_env ''AAPL'')]\<rparr>"
    by simp
  have down: "sync_body example_env ''DOWN'' =
       (Inr None, [PriceQuery ''DOWN'',
               Log ERROR (ErrorFetching ''DOWN'' (LibraryError ''connection refused'')),
               Log WARNING (InsufficientPriceData ''DOWN'')])"
    using example_query(8)
      numeric_prices_sync_batch_never_raises [where env = example_env and s = "''DOWN''"
        and e = "LibraryError ''connection refused''"]
    by blast
  have xyz: "sync_body example_env ''XYZ'' =
       (Inr None, [PriceQuery ''XYZ'', ArimaFit (log_returns ?xyz),
               Log ERROR (TrainingFailed ''XYZ'' (PStr (str_exc (LibraryError ''LU decomposition error''))))])"
    using example_query(3) l(1,3) a(1) returns_of_numbers [of example_env ?xyz]
      numeric_prices_sync_batch_never_raises [where env = example_env and s = "''XYZ''"
        and e = "LibraryError ''LU decomposition error''" and prices = "map Number ?xyz"
        and returns = "log_returns ?xyz"]
    by blast
  have vol: "sync_body example_env ''VOL'' =
       (Inr None, [PriceQuery ''VOL'', ArimaFit (log_returns ?vol), GarchFit (log_returns ?vol),
               Log ERROR (TrainingFailed ''VOL'' (PStr (str_exc (LibraryError ''optimizer did not converge''))))])"
    using example_query(4) l(2,4) a(2) g returns_of_numbers [of example_env ?vol]
      numeric_prices_sync_batch_never_raises [where env = example_env and s = "''VOL''"
        and e = "LibraryError ''optimizer did not converge''" and prices = "map Number ?vol"
        and returns = "log_returns ?vol" and ap = "[''ar.L1'' \<mapsto> Num 0.5, ''ma.L1'' \<mapsto> Num 0.25]"]
    by blast
  from n res down xyz vol show ?thesis
    by simp
qed

section \<open>Persistence is best effort\<close>

text \<open>
  C8. \<^verbatim>\<open>save_model_results\<close> has no exceptional result: a failure to get the client, an
  exception in reading the metrics, or a failed insert ends in one error log line for the
  symbol. In the background batch a symbol whose fit succeeded gets its "Success" entry in
  the summary after the save, whatever the save did: the summary lists exactly the symbols
  whose fit succeeded (unless the return computation of a symbol raises, which ends the
  batch), is the same for every behaviour of the store, and its length is what the closing
  log line reports.
\<close>

theorem persistence_is_best_effort:
  "fst (process_batch_logic env symbols) =
     (case first_uncaught env symbols of
        Some e \<Rightarrow> Inl e
      | None \<Rightarrow> Inr (map (\<lambda>s. [(s, PStr ''Success'')]) (filter (fit_succeeded env) symbols)))
   \<and> fst (process_batch_logic (env\<lparr>sink_client := c, sink_insert := i\<rparr>) symbols) =
       fst (process_batch_logic env symbols)
   \<and> (first_uncaught env symbols = None \<longrightarrow>
        fst (process_batch_logic env symbols) =
          Inr (map (\<lambda>s. [(s, PStr ''Success'')]) (filter (fit_succeeded env) symbols))
        \<and> last (snd (process_batch_logic env symbols)) =
            Log INFO (BatchComplete (length (filter (fit_succeeded env) symbols))))
   \<and> (numeric_prices env symbols \<longrightarrow> first_uncaught env symbols = None)
   \<and> (fit_succeeded env s \<longrightarrow>
        batch_body env s =
          (Inr (Some [(s, PStr ''Success'')]),
           snd (fetch_price_history env s)
           @ snd (train_and_extract_params env (fst (fetch_price_history env s)))
           @ save_model_results env s (PDict (model_result_of env s))))
   \<and> (sink_client env s = Some e \<longrightarrow>
        save_model_results env s metrics = [Log ERROR (ErrorSaving s e)])
   \<and> (sink_client env s = None \<and> resolve_metrics metrics = Inl e \<longrightarrow>
        save_model_results env s metrics = [Log ERROR (ErrorSaving s e)])
   \<and> (sink_client env s = None \<and> resolve_metrics metrics = Inr (a, m, v)
        \<and> sink_insert env (s, a, m, v) = Some e \<longrightarrow>
        save_model_results env s metrics =
          [SinkInsert (s, a, m, v), Log ERROR (ErrorSaving s e)])"
proof -
  have same: "fit_succeeded (env\<lparr>sink_client := c, sink_insert := i\<rparr>) = fit_succeeded env"
    by (auto simp: fit_succeeded_def returns_of_def fun_eq_iff split: sum.splits option.splits)
  have same_u: "uncaught (env\<lparr>sink_client := c, sink_insert := i\<rparr>) = uncaught env"
    by (auto simp: uncaught_def returns_of_def fun_eq_iff split: sum.splits option.splits)
  have same_f: "first_uncaught (env\<lparr>sink_client := c, sink_insert := i\<rparr>) symbols =
      first_uncaught env symbols"
    by (induction symbols) (simp_all add: same_u split: option.splits)
  have summary: "fst (process_batch_logic env symbols) =
     (case first_uncaught env symbols of
        Some e \<Rightarrow> Inl e
      | None \<Rightarrow> Inr (map (\<lambda>s. [(s, PStr ''Success'')]) (filter (fit_succeeded env) symbols)))"
    by (rule fst_process_batch_logic)
  have indep: "fst (process_batch_logic (env\<lparr>sink_client := c, sink_insert := i\<rparr>) symbols) =
       fst (process_batch_logic env symbols)"
    unfolding fst_process_batch_logic same same_f by (rule refl)
  have count: "first_uncaught env symbols = None \<longrightarrow>
        fst (process_batch_logic env symbols) =
          Inr (map (\<lambda>s. [(s, PStr ''Success'')]) (filter (fit_succeeded env) symbols))
        \<and> last (snd (process_batch_logic env symbols)) =
            Log INFO (BatchComplete (length (filter (fit_succeeded env) symbols)))"
  proof (intro impI)
    assume u: "first_uncaught env symbols = None"
    obtain r evs where l: "batch_loop env symbols [] = (r, evs)"
      by (cases "batch_loop env symbols []")
    with fst_batch_loop [of env symbols "[]"] u
    have r: "r = Inr (map (\<lambda>s. [(s, PStr ''Success'')]) (filter (fit_succeeded env) symbols))"
      by simp
    show "fst (process_batch_logic env symbols) =
          Inr (map (\<lambda>s. [(s, PStr ''Success'')]) (filter (fit_succeeded env) symbols))
        \<and> last (snd (process_batch_logic env symbols)) =
            Log INFO (BatchComplete (length (filter (fit_succeeded env) symbols)))"
      by (simp add: process_batch_logic_def l r)
  qed
  have numeric: "numeric_prices env symbols \<longrightarrow> first_uncaught env symbols = None"
    using numeric_prices_uncaught by blast
  have body: "fit_succeeded env s \<longrightarrow>
        batch_body env s =
          (Inr (Some [(s, PStr ''Success'')]),
           snd (fetch_price_history env s)
           @ snd (train_and_extract_params env (fst (fetch_price_history env s)))
           @ save_model_results env s (PDict (model_result_of env s)))"
    by (auto simp: batch_body_def fit_succeeded_def model_result_of_def fetch_price_history_def
      train_and_extract_params_eq try_success_iff case_prod_beta Let_def split: sum.splits)
  have s1: "sink_client env s = Some e \<longrightarrow>
        save_model_results env s metrics = [Log ERROR (ErrorSaving s e)]"
    by (simp add: save_model_results_def)
  have s2: "sink_client env s = None \<and> resolve_metrics metrics = Inl e \<longrightarrow>
        save_model_results env s metrics = [Log ERROR (ErrorSaving s e)]"
    by (simp add: save_model_results_def)
  have s3: "sink_client env s = None \<and> resolve_metrics metrics = Inr (a, m, v)
        \<and> sink_insert env (s, a, m, v) = Some e \<longrightarrow>
        save_model_results env s metrics =
          [SinkInsert (s, a, m, v), Log ERROR (ErrorSaving s e)]"
    by (simp add: save_model_results_def)
  from summary indep count numeric body s1 s2 s3 show ?thesis by blast
qed

theorem persistence_is_best_effort_witness:
  "fit_succeeded example_env ''AAPL''
   \<and> sink_insert example_env (''AAPL'', PFloat (Num 0.5), PFloat (Num 0.25), PFloat (Num 3)) =
       Some (LibraryError ''insert timed out'')
   \<and> process_batch_logic example_env [''AAPL''] =
       (Inr [[(''AAPL'', PStr ''Success'')]],
        [PriceQuery ''AAPL'',
         ArimaFit (log_returns [100, 101, 102, 103, 104, 105, 106, 107, 108, 109, 110]),
         GarchFit (log_returns [100, 101, 102, 103, 104, 105, 106, 107, 108, 109, 110]),
         SinkInsert (''AAPL'', PFloat (Num 0.5), PFloat (Num 0.25), PFloat (Num 3)),
         Log ERROR (ErrorSaving ''AAPL'' (LibraryError ''insert timed out'')),
         Log INFO (BatchComplete 1)])
   \<and> save_model_results (example_env\<lparr>sink_client := \<lambda>s. Some (LibraryError ''no route to host'')\<rparr>)
         ''AAPL'' (PDict []) =
       [Log ERROR (ErrorSaving ''AAPL'' (LibraryError ''no route to host''))]
   \<and> save_model_results example_env ''AAPL'' (PFloat (Num 1)) =
       [Log ERROR (ErrorSaving ''AAPL''
          (AttributeError
             ([CHR 0x27] @ ''float'' @ [CHR 0x27] @ '' object has no attribute ''
              @ [CHR 0x27] @ ''get'' @ [CHR 0x27])))]"
proof -
  have h: "fit_succeeded example_env ''AAPL''"
    by (rule example_fit_succeeded)
  have m: "model_result_of example_env ''AAPL'' =
      flattened_results [''ar.L1'' \<mapsto> Num 0.5, ''ma.L1'' \<mapsto> Num 0.25]
        [''omega'' \<mapsto> Num 1, ''alpha[1]'' \<mapsto> Num 0.125, ''beta'' \<mapsto> Num 0.75] (Num 3)"
    by (rule example_model_result)
  have r: "resolve_metrics (PDict (model_result_of example_env ''AAPL'')) =
      Inr (PFloat (Num 0.5), PFloat (Num 0.25), PFloat (Num 3))"
    by (simp add: m resolve_metrics_def flattened_results_def params_get_def py_or_def is_dict_def)
  have r2: "resolve_metrics (PFloat (Num 1)) =
      Inl (AttributeError
             ([CHR 0x27] @ ''float'' @ [CHR 0x27] @ '' object has no attribute ''
              @ [CHR 0x27] @ ''get'' @ [CHR 0x27]))"
    by (simp add: resolve_metrics_def py_or_def is_dict_def)
  have c: "sink_client example_env ''AAPL'' = None"
    "sink_insert example_env (''AAPL'', PFloat (Num 0.5), PFloat (Num 0.25), PFloat (Num 3)) =
       Some (LibraryError ''insert timed out'')"
    by (simp_all add: example_env_def)
  have t: "train_and_extract_params example_env
      (map Number [100, 101, 102, 103, 104, 105, 106, 107, 108, 109, 110])
    = (Inr (model_result_of example_env ''AAPL''),
       [ArimaFit (log_returns [100, 101, 102, 103, 104, 105, 106, 107, 108, 109, 110]),
        GarchFit (log_returns [100, 101, 102, 103, 104, 105, 106, 107, 108, 109, 110])])"
    unfolding m
    by (simp add: train_and_extract_params_eq try_fit_eq example_estimators example_lengths
        del: list.map)
  have f: "fetch_price_history example_env ''AAPL'' =
    (map Number [100, 101, 102, 103, 104, 105, 106, 107, 108, 109, 110], [PriceQuery ''AAPL''])"
    by (simp add: fetch_price_history_def example_query del: list.map)
  have c2: "sink_client (example_env\<lparr>sink_client := \<lambda>s. Some (LibraryError ''no route to host'')\<rparr>)
      ''AAPL'' = Some (LibraryError ''no route to host'')"
    by simp
  have body: "batch_body example_env ''AAPL'' =
      (Inr (Some [(''AAPL'', PStr ''Success'')]),
       snd (fetch_price_history example_env ''AAPL'')
       @ snd (train_and_extract_params example_env (fst (fetch_price_history example_env ''AAPL'')))
       @ save_model_results example_env ''AAPL'' (PDict (model_result_of example_env ''AAPL'')))"
    using h persistence_is_best_effort [where env = example_env and s = "''AAPL''"]
    by blast
  have save: "save_model_results example_env ''AAPL'' (PDict (model_result_of example_env ''AAPL'')) =
      [SinkInsert (''AAPL'', PFloat (Num 0.5), PFloat (Num 0.25), PFloat (Num 3)),
       Log ERROR (ErrorSaving ''AAPL'' (LibraryError ''insert timed out''))]"
    using c r persistence_is_best_effort [where env = example_env and s = "''AAPL''"
        and e = "LibraryError ''insert timed out''"
        and metrics = "PDict (model_result_of example_env ''AAPL'')"
        and a = "PFloat (Num 0.5)" and m = "PFloat (Num 0.25)" and v = "PFloat (Num 3)"]
    by blast
  have noclient: "save_model_results
        (example_env\<lparr>sink_client := \<lambda>s. Some (LibraryError ''no route to host'')\<rparr>)
        ''AAPL'' (PDict []) =
       [Log ERROR (ErrorSaving ''AAPL'' (LibraryError ''no route to host''))]"
    using c2 persistence_is_best_effort
        [where env = "example_env\<lparr>sink_client := \<lambda>s. Some (LibraryError ''no route to host'')\<rparr>"
          and s = "''AAPL''" and e = "LibraryError ''no route to host''" and metrics = "PDict []"]
    by blast
  have nodict: "save_model_results example_env ''AAPL'' (PFloat (Num 1)) =
       [Log ERROR (ErrorSaving ''AAPL''
          (AttributeError
             ([CHR 0x27] @ ''float'' @ [CHR 0x27] @ '' object has no attribute ''
              @ [CHR 0x27] @ ''get'' @ [CHR 0x27])))]"
    using c(1) r2 persistence_is_best_effort [where env = example_env and s = "''AAPL''"
        and metrics = "PFloat (Num 1)"]
    by blast
  have batch: "process_batch_logic example_env [''AAPL''] =
       (Inr [[(''AAPL'', PStr ''Success'')]],
        [PriceQuery ''AAPL'',
         ArimaFit (log_returns [100, 101, 102, 103, 104, 105, 106, 107, 108, 109, 110]),
         GarchFit (log_returns [100, 101, 102, 103, 104, 105, 106, 107, 108, 109, 110]),
         SinkInsert (''AAPL'', PFloat (Num 0.5), PFloat (Num 0.25), PFloat (Num 3)),
         Log ERROR (ErrorSaving ''AAPL'' (LibraryError ''insert timed out'')),
         Log INFO (BatchComplete 1)])"
    by (simp add: process_batch_logic_def body save f t del: list.map)
  from h c(2) batch noclient nodict show ?thesis by blast
qed


section \<open>Rejection of the empty symbol list\<close>

text \<open>
  C9. Given the empty symbol list, both endpoints answer with the client error 400
  "No symbols provided"; the synchronous endpoint has then made no call at all (no price
  query, no fit, no insert, no log line), and the deferred endpoint has queued no task, so
  that running its background tasks does nothing either.
\<close>

theorem empty_symbol_list_rejected:
  "trigger_training_sync env [] = (Inl (HTTPException 400 ''No symbols provided''), [])
   \<and> trigger_training [] = (Inl (HTTPException 400 ''No symbols provided''), [])
   \<and> run_background_tasks env (snd (trigger_training [])) = []"
  by (simp add: trigger_training_sync_def trigger_training_def run_background_tasks_def)

section \<open>The record of a successful symbol\<close>

text \<open>
  C10. For every symbol whose fit succeeds, the loop body of the synchronous batch appends
  the dictionary returned by \<^verbatim>\<open>train_and_extract_params\<close> with the key "symbol" set,
  and nothing else is done to it: its keys are "success", the seven coefficient fields and
  "symbol", in that order; "success" is true, "symbol" is the symbol, and each of the seven
  fields holds a float. When the symbol is in the list and the batch runs through, that
  record is in the list that \<^verbatim>\<open>process_batch_logic_sync\<close> returns, and that list is
  the "results" of the endpoint's response. Every record that the batch returns is such a
  record of a symbol of the list.
\<close>

theorem sync_record_is_fitter_result_with_symbol:
  "(fit_succeeded env s \<longrightarrow>
      fst (sync_body env s) =
        Inr (Some (AList.update ''symbol'' (PStr s) (model_result_of env s)))
      \<and> map fst (AList.update ''symbol'' (PStr s) (model_result_of env s)) =
          ''success'' # seven_fields @ [''symbol'']
      \<and> dict_get (AList.update ''symbol'' (PStr s) (model_result_of env s)) ''success''
          = PBool True
      \<and> dict_get (AList.update ''symbol'' (PStr s) (model_result_of env s)) ''symbol'' = PStr s
      \<and> fully_populated (AList.update ''symbol'' (PStr s) (model_result_of env s)))
   \<and> (fit_succeeded env s \<and> s \<in> set symbols \<and> first_uncaught env symbols = None \<longrightarrow>
        (\<exists>ms. fst (process_batch_logic_sync env symbols) = Inr ms
              \<and> AList.update ''symbol'' (PStr s) (model_result_of env s) \<in> set ms
              \<and> fst (trigger_training_sync env symbols) =
                  Inr \<lparr>status = ''Processing complete'', results = ms\<rparr>))
   \<and> list_all (\<lambda>r. r \<in> (\<lambda>s. AList.update ''symbol'' (PStr s) (model_result_of env s)) ` set symbols
                  \<and> map fst r = ''success'' # seven_fields @ [''symbol'']
                  \<and> dict_get r ''success'' = PBool True
                  \<and> dict_get r ''symbol'' \<in> PStr ` set symbols
                  \<and> fully_populated r)
       (returned (fst (process_batch_logic_sync env symbols)))"
proof -
  have shape: "map fst (AList.update ''symbol'' (PStr s) (model_result_of env s)) =
          ''success'' # seven_fields @ [''symbol'']
      \<and> dict_get (AList.update ''symbol'' (PStr s) (model_result_of env s)) ''success''
          = PBool True
      \<and> dict_get (AList.update ''symbol'' (PStr s) (model_result_of env s)) ''symbol'' = PStr s
      \<and> fully_populated (AList.update ''symbol'' (PStr s) (model_result_of env s))"
    if "fit_succeeded env s" for s
  proof -
    from that obtain ap gp v where r: "model_result_of env s = flattened_results ap gp v"
      using model_result_of_succeeded by blast
    have t: "AList.update ''symbol'' (PStr s) (model_result_of env s) =
        flattened_results ap gp v @ [(''symbol'', PStr s)]"
      by (simp add: r tagged_flattened)
    have vals:
      "dict_get (flattened_results ap gp v @ [(''symbol'', PStr s)]) ''success'' = PBool True"
      "dict_get (flattened_results ap gp v @ [(''symbol'', PStr s)]) ''symbol'' = PStr s"
      by (simp_all add: flattened_results_def dict_get_def)
    show ?thesis
      unfolding t using flattened_keys vals fully_populated_tagged by blast
  qed
  have body: "fit_succeeded env s \<longrightarrow>
      fst (sync_body env s) =
        Inr (Some (AList.update ''symbol'' (PStr s) (model_result_of env s)))"
    by (simp add: fst_sync_body succeeded_not_uncaught)
  have response: "fit_succeeded env s \<and> s \<in> set symbols \<and> first_uncaught env symbols = None \<longrightarrow>
        (\<exists>ms. fst (process_batch_logic_sync env symbols) = Inr ms
              \<and> AList.update ''symbol'' (PStr s) (model_result_of env s) \<in> set ms
              \<and> fst (trigger_training_sync env symbols) =
                  Inr \<lparr>status = ''Processing complete'', results = ms\<rparr>)"
  proof (intro impI)
    assume h: "fit_succeeded env s \<and> s \<in> set symbols \<and> first_uncaught env symbols = None"
    let ?ms = "map (\<lambda>s. AList.update ''symbol'' (PStr s) (model_result_of env s))
                 (filter (fit_succeeded env) symbols)"
    obtain r evs where p: "process_batch_logic_sync env symbols = (r, evs)"
      by (cases "process_batch_logic_sync env symbols")
    with fst_process_batch_logic_sync [of env symbols] h have r: "r = Inr ?ms"
      by simp
    from h have ne: "symbols \<noteq> []"
      by auto
    have "fst (process_batch_logic_sync env symbols) = Inr ?ms"
      by (simp add: p r)
    moreover have "AList.update ''symbol'' (PStr s) (model_result_of env s) \<in> set ?ms"
      using h by auto
    moreover have "fst (trigger_training_sync env symbols) =
        Inr \<lparr>status = ''Processing complete'', results = ?ms\<rparr>"
      using ne by (simp add: trigger_training_sync_def p r)
    ultimately show "\<exists>ms. fst (process_batch_logic_sync env symbols) = Inr ms
              \<and> AList.update ''symbol'' (PStr s) (model_result_of env s) \<in> set ms
              \<and> fst (trigger_training_sync env symbols) =
                  Inr \<lparr>status = ''Processing complete'', results = ms\<rparr>"
      by blast
  qed
  have every: "list_all (\<lambda>r. r \<in> (\<lambda>s. AList.update ''symbol'' (PStr s) (model_result_of env s)) ` set symbols
                  \<and> map fst r = ''success'' # seven_fields @ [''symbol'']
                  \<and> dict_get r ''success'' = PBool True
                  \<and> dict_get r ''symbol'' \<in> PStr ` set symbols
                  \<and> fully_populated r)
       (returned (fst (process_batch_logic_sync env symbols)))"
  proof (cases "first_uncaught env symbols")
    case None
    then show ?thesis
      using shape
      by (auto simp: fst_process_batch_logic_sync returned_def list_all_iff)
  next
    case (Some e)
    then show ?thesis
      by (simp add: fst_process_batch_logic_sync returned_def)
  qed
  from body shape [of s] response every show ?thesis by blast
qed


theorem sync_record_is_fitter_result_with_symbol_witness:
  "fit_succeeded example_env ''MSFT''
   \<and> fst (sync_body example_env ''MSFT'') =
       Inr (Some [(''success'', PBool True),
             (''ar_coeff'', PFloat (Num 0.5)),
             (''ma_coeff'', PFloat (Num 0.25)),
             (''const'', PFloat (Num 0)),
             (''omega'', PFloat (Num 1)),
             (''alpha'', PFloat (Num 0.125)),
             (''beta'', PFloat (Num 0.75)),
             (''garch_volatility'', PFloat (Num 3)),
             (''symbol'', PStr ''MSFT'')])
   \<and> (\<exists>ms. fst (trigger_training_sync example_env [''AAPL'', ''ZZZZ'', ''MSFT'']) =
               Inr \<lparr>status = ''Processing complete'', results = ms\<rparr>
             \<and> [(''success'', PBool True),
                 (''ar_coeff'', PFloat (Num 0.5)),
                 (''ma_coeff'', PFloat (Num 0.25)),
                 (''const'', PFloat (Num 0)),
                 (''omega'', PFloat (Num 1)),
                 (''alpha'', PFloat (Num 0.125)),
                 (''beta'', PFloat (Num 0.75)),
                 (''garch_volatility'', PFloat (Num 3)),
                 (''symbol'', PStr ''MSFT'')] \<in> set ms)"
proof -
  let ?syms = "[''AAPL'', ''ZZZZ'', ''MSFT'']"
  let ?r = "[(''success'', PBool True),
             (''ar_coeff'', PFloat (Num 0.5)),
             (''ma_coeff'', PFloat (Num 0.25)),
             (''const'', PFloat (Num 0)),
             (''omega'', PFloat (Num 1)),
             (''alpha'', PFloat (Num 0.125)),
             (''beta'', PFloat (Num 0.75)),
             (''garch_volatility'', PFloat (Num 3)),
             (''symbol'', PStr ''MSFT'')]"
  have h: "fit_succeeded example_env ''MSFT''"
    by (rule example_fit_succeeded)
  have m: "AList.update ''symbol'' (PStr ''MSFT'') (model_result_of example_env ''MSFT'') = ?r"
    by (simp add: example_model_result flattened_results_def params_get_def)
  have u: "first_uncaught example_env ?syms = None"
    by (rule example_first_uncaught) simp
  have i: "''MSFT'' \<in> set ?syms"
    by simp
  note T = sync_record_is_fitter_result_with_symbol [of example_env "''MSFT''" ?syms]
  from T h have body: "fst (sync_body example_env ''MSFT'') =
        Inr (Some (AList.update ''symbol'' (PStr ''MSFT'') (model_result_of example_env ''MSFT'')))"
    by blast
  from T h i u obtain ms where
    ms: "fst (trigger_training_sync example_env ?syms) =
           Inr \<lparr>status = ''Processing complete'', results = ms\<rparr>"
        "AList.update ''symbol'' (PStr ''MSFT'') (model_result_of example_env ''MSFT'') \<in> set ms"
    by blast
  from h body ms show ?thesis
    unfolding m by blast
qed

end
